theory Spec2Isabelle
  imports Complex_Main "HOL-Library.Sublist" "HOL-Library.Multiset"
begin

section \<open>Conventions of the embedding\<close>

text \<open>
  The two calculation modules of the repository are embedded: the financial analysis
  engine (\<^verbatim>\<open>categorizeTransaction\<close>, \<^verbatim>\<open>calculateFinancialMetrics\<close>,
  \<^verbatim>\<open>analyzeSpendingByCategory\<close>, \<^verbatim>\<open>generateFinancialInsights\<close>) and, of the investment
  planning engine (\<^verbatim>\<open>src/lib/investment-planning.ts\<close>), the two allocation functions,
  the portfolio performance, the monthly contribution and the goal projection.

  \<^item> A JavaScript \<^verbatim>\<open>number\<close> is a \<^typ>\<open>real\<close>. In the metrics, the spending aggregation,
    the insights, the allocations, the contribution and the goal projection arithmetic
    is exact: the rounding of IEEE-754 doubles, overflow to an infinity and signed zero
    are not modelled there. The portfolio performance is modelled in double precision,
    each operation rounded. Where the source relies on \<^verbatim>\<open>NaN\<close> (the quotient
    \<^verbatim>\<open>0 / 0\<close>, a power of a negative base, an Invalid Date) the model returns
    \<^term>\<open>None\<close> for it.
  \<^item> A JavaScript string is a \<^typ>\<open>string\<close>, one \<^typ>\<open>char\<close> per code unit; the model's
    alphabet is the code points 0 to 255.
  \<^item> \<^verbatim>\<open>new Date()\<close> reads the ambient clock. The reading is an explicit argument
    \<open>now\<close> of every function that takes it in the source.
\<close>

section \<open>Financial analysis engine\<close>

subsection \<open>Transaction categories\<close>

text \<open>
  \<^verbatim>\<open>TRANSACTION_CATEGORIES\<close> is an object literal; \<^verbatim>\<open>Object.entries\<close> lists its
  string keys in the order they are declared, so the table is a list of entries.
\<close>

definition TRANSACTION_CATEGORIES :: "(string \<times> string list) list" where
  "TRANSACTION_CATEGORIES =
    [(''Housing'', [''rent'', ''mortgage'', ''utilities'', ''insurance'', ''property tax'', ''maintenance'']),
     (''Transportation'', [''gas'', ''car payment'', ''insurance'', ''maintenance'', ''uber'', ''lyft'', ''taxi'', ''public transport'']),
     (''Food'', [''grocery'', ''restaurant'', ''fast food'', ''coffee'', ''dining'', ''takeout'']),
     (''Healthcare'', [''doctor'', ''pharmacy'', ''hospital'', ''dental'', ''vision'', ''medical'']),
     (''Entertainment'', [''movie'', ''streaming'', ''games'', ''concert'', ''sports'', ''hobby'']),
     (''Shopping'', [''clothing'', ''electronics'', ''home goods'', ''personal care'', ''gifts'']),
     (''Education'', [''tuition'', ''books'', ''courses'', ''training'', ''certification'']),
     (''Savings'', [''savings account'', ''investment'', ''401k'', ''ira'', ''emergency fund'']),
     (''Debt'', [''credit card'', ''loan payment'', ''student loan'', ''personal loan'']),
     (''Income'', [''salary'', ''bonus'', ''freelance'', ''investment income'', ''rental income'']),
     (''Other'', [])]"

text \<open>
  \<^verbatim>\<open>String.prototype.toLowerCase\<close> on the model's alphabet: the letters A to Z and the
  accented capitals U+00C0 to U+00DE (the multiplication sign U+00D7 apart) move up by 32.
\<close>

definition toLowerCase_char :: "char \<Rightarrow> char" where
  "toLowerCase_char c =
     (let n = (of_char c :: nat)
      in if (65 \<le> n \<and> n \<le> 90) \<or> (192 \<le> n \<and> n \<le> 222 \<and> n \<noteq> 215)
         then char_of (n + 32) else c)"

definition toLowerCase :: "string \<Rightarrow> string" where
  "toLowerCase s = map toLowerCase_char s"

text \<open>
  \<^verbatim>\<open>String.prototype.includes\<close>: the search string is looked for at every position of
  the receiver, from the left; the empty search string is found in every string.
\<close>

fun starts_with :: "string \<Rightarrow> string \<Rightarrow> bool" where
  "starts_with s [] = True"
| "starts_with [] (k # ks) = False"
| "starts_with (c # cs) (k # ks) = (c = k \<and> starts_with cs ks)"

fun string_includes :: "string \<Rightarrow> string \<Rightarrow> bool" where
  "string_includes [] searchString = starts_with [] searchString"
| "string_includes (c # cs) searchString =
     (starts_with (c # cs) searchString \<or> string_includes cs searchString)"

text \<open>\<^verbatim>\<open>Array.prototype.some\<close>.\<close>

primrec array_some :: "('a \<Rightarrow> bool) \<Rightarrow> 'a list \<Rightarrow> bool" where
  "array_some p [] = False"
| "array_some p (x # xs) = (p x \<or> array_some p xs)"

text \<open>
  The \<^verbatim>\<open>for ... of\<close> loop of \<^verbatim>\<open>categorizeTransaction\<close> over the entries that are left,
  with its \<^verbatim>\<open>return\<close> from inside the loop and the \<^verbatim>\<open>return "Other"\<close> after it.
\<close>

fun categorize_loop :: "(string \<times> string list) list \<Rightarrow> string \<Rightarrow> string" where
  "categorize_loop [] lowerDesc = ''Other''"
| "categorize_loop ((category, keywords) # entries) lowerDesc =
     (if array_some (\<lambda>keyword. string_includes lowerDesc keyword) keywords then category
      else categorize_loop entries lowerDesc)"

definition categorizeTransaction :: "string \<Rightarrow> string" where
  "categorizeTransaction description =
     (let lowerDesc = toLowerCase description
      in categorize_loop TRANSACTION_CATEGORIES lowerDesc)"

text \<open>
  The categorizer as the specification words it: a category matches when one of its
  keywords is a substring of the lower-cased description; the first matching category
  of the table is the answer and \<open>Other\<close> is the answer when there is none.
\<close>

definition keyword_match :: "string \<Rightarrow> string list \<Rightarrow> bool" where
  "keyword_match description keywords =
     (\<exists>keyword \<in> set keywords. sublist keyword (toLowerCase description))"

definition categorize_spec :: "string \<Rightarrow> string" where
  "categorize_spec description =
     (case find (\<lambda>(category, keywords). keyword_match description keywords) TRANSACTION_CATEGORIES of
        Some (category, keywords) \<Rightarrow> category
      | None \<Rightarrow> ''Other'')"

definition category_names :: "string list" where
  "category_names = [''Housing'', ''Transportation'', ''Food'', ''Healthcare'', ''Entertainment'',
     ''Shopping'', ''Education'', ''Savings'', ''Debt'', ''Income'', ''Other'']"

subsection \<open>Dates\<close>

text \<open>
  A \<^verbatim>\<open>Date\<close> object holds a time value: milliseconds since the epoch, or \<^verbatim>\<open>NaN\<close> for an
  Invalid Date (\<^term>\<open>None\<close>). The object \<^verbatim>\<open>now\<close> that \<^verbatim>\<open>new Date()\<close> returns is kept
  as what the clock showed in the local time zone: the three getters the source calls,
  the time within that day, which the source never reads, and the offset of the local
  zone from UTC, taken as fixed.
\<close>

record DateObject =
  getFullYear :: int
  getMonth :: int
  getDate :: int
  timeWithinDay :: int
  localTZA :: int

definition msPerDay :: int where
  "msPerDay = 86400000"

text \<open>The day number of the first of January of a year, as ECMAScript defines it.\<close>

definition DayFromYear :: "int \<Rightarrow> int" where
  "DayFromYear y = 365 * (y - 1970) + (y - 1969) div 4 - (y - 1901) div 100 + (y - 1601) div 400"

definition InLeapYear :: "int \<Rightarrow> bool" where
  "InLeapYear y = (y mod 4 = 0 \<and> (y mod 100 \<noteq> 0 \<or> y mod 400 = 0))"

text \<open>The days of a year that lie before its month \<open>mn\<close> (0 is January).\<close>

definition DaysBeforeMonth :: "int \<Rightarrow> bool \<Rightarrow> int" where
  "DaysBeforeMonth mn leap =
     (if mn = 0 then 0
      else if mn = 1 then 31
      else (if leap then 1 else 0) +
        (if mn = 2 then 59 else if mn = 3 then 90 else if mn = 4 then 120
         else if mn = 5 then 151 else if mn = 6 then 181 else if mn = 7 then 212
         else if mn = 8 then 243 else if mn = 9 then 273 else if mn = 10 then 304
         else 334))"

text \<open>
  \<^verbatim>\<open>MakeDay\<close>: a month outside 0 to 11 carries into the year, and a day of the month
  outside the month carries into the neighbouring months.
\<close>

definition MakeDay :: "int \<Rightarrow> int \<Rightarrow> int \<Rightarrow> int" where
  "MakeDay year month date =
     (let ym = year + month div 12;
          mn = month mod 12
      in DayFromYear ym + DaysBeforeMonth mn (InLeapYear ym) + date - 1)"

text \<open>
  \<^verbatim>\<open>new Date(year, monthIndex, day)\<close>: local midnight of that day. A year from 0 to 99
  stands for 1900 plus the year, and a time value beyond 8.64e15 in size is \<^verbatim>\<open>NaN\<close>.
\<close>

definition new_Date :: "int \<Rightarrow> int \<Rightarrow> int \<Rightarrow> int \<Rightarrow> int option" where
  "new_Date tza year monthIndex day =
     (let yr = (if 0 \<le> year \<and> year \<le> 99 then 1900 + year else year);
          tv = MakeDay yr monthIndex day * msPerDay - tza
      in if \<bar>tv\<bar> \<le> 8640000000000000 then Some tv else None)"

text \<open>
  \<^verbatim>\<open>a >= b\<close> on two \<^verbatim>\<open>Date\<close> objects compares their time values; a comparison with
  \<^verbatim>\<open>NaN\<close> is false.
\<close>

definition date_ge :: "int option \<Rightarrow> int option \<Rightarrow> bool" where
  "date_ge a b = (case a of None \<Rightarrow> False | Some x \<Rightarrow> (case b of None \<Rightarrow> False | Some y \<Rightarrow> y \<le> x))"

subsection \<open>Financial metrics\<close>

datatype TransactionType = Income | Expense | Transfer

text \<open>
  A transaction as the functions receive it. \<open>transaction_date\<close> holds the time value of
  \<^verbatim>\<open>new Date(t.transaction_date)\<close>, the only use the source makes of the date string
  (a date such as \<^verbatim>\<open>2024-03-02\<close> is midnight of that day in UTC).
  \<open>description\<close> is optional: the element type that \<^verbatim>\<open>calculateFinancialMetrics\<close>
  declares has no such field, and the function reads it as \<^verbatim>\<open>t.description || ""\<close>.
\<close>

record Transaction =
  amount :: real
  description :: "string option"
  transaction_type :: TransactionType
  transaction_date :: "int option"

record FinancialMetrics =
  totalIncome :: real
  totalExpenses :: real
  netIncome :: real
  savingsRate :: real
  debtToIncomeRatio :: real
  emergencyFundMonths :: real
  monthlyBudgetVariance :: real

text \<open>\<^verbatim>\<open>t.description || ""\<close>: an absent description and the empty one both give \<^verbatim>\<open>""\<close>.\<close>

definition description_or_empty :: "Transaction \<Rightarrow> string" where
  "description_or_empty t = (case description t of None \<Rightarrow> [] | Some d \<Rightarrow> if d = [] then [] else d)"

text \<open>
  \<^verbatim>\<open>calculateFinancialMetrics(transactions, emergencyFundBalance = 0)\<close>. The first
  argument of the model is the clock reading of \<^verbatim>\<open>const now = new Date()\<close>;
  \<^verbatim>\<open>reduce\<close> folds from the left.
\<close>

definition threeMonthsAgo :: "DateObject \<Rightarrow> int option" where
  "threeMonthsAgo now = new_Date (localTZA now) (getFullYear now) (getMonth now - 3) (getDate now)"

definition calculateFinancialMetrics :: "DateObject \<Rightarrow> Transaction list \<Rightarrow> real \<Rightarrow> FinancialMetrics" where
  "calculateFinancialMetrics now transactions emergencyFundBalance =
     (let recentTransactions = filter (\<lambda>t. date_ge (transaction_date t) (threeMonthsAgo now)) transactions;
          totalIncome = foldl (\<lambda>sum t. sum + \<bar>amount t\<bar>) 0
            (filter (\<lambda>t. transaction_type t = Income) recentTransactions);
          totalExpenses = foldl (\<lambda>sum t. sum + \<bar>amount t\<bar>) 0
            (filter (\<lambda>t. transaction_type t = Expense) recentTransactions);
          netIncome = totalIncome - totalExpenses;
          savingsRate = (if totalIncome > 0 then (netIncome / totalIncome) * 100 else 0);
          monthlyExpenses = totalExpenses / 3;
          emergencyFundMonths = (if monthlyExpenses > 0 then emergencyFundBalance / monthlyExpenses else 0);
          debtPayments = foldl (\<lambda>sum t. sum + \<bar>amount t\<bar>) 0
            (filter (\<lambda>t. categorizeTransaction (description_or_empty t) = ''Debt'')
              (filter (\<lambda>t. transaction_type t = Expense) recentTransactions));
          monthlyIncome = totalIncome / 3;
          debtToIncomeRatio = (if monthlyIncome > 0 then (debtPayments / 3 / monthlyIncome) * 100 else 0)
      in \<lparr>totalIncome = totalIncome,
          totalExpenses = totalExpenses,
          netIncome = netIncome,
          savingsRate = savingsRate,
          debtToIncomeRatio = debtToIncomeRatio,
          emergencyFundMonths = emergencyFundMonths,
          monthlyBudgetVariance = 0\<rparr>)"

text \<open>
  The quantities of the metrics as the specification words them: sums of absolute amounts
  over the transactions of the three-month window.
\<close>

definition in_metrics_window :: "DateObject \<Rightarrow> Transaction \<Rightarrow> bool" where
  "in_metrics_window now t = date_ge (transaction_date t) (threeMonthsAgo now)"

definition window_income :: "DateObject \<Rightarrow> Transaction list \<Rightarrow> real" where
  "window_income now ts =
     (\<Sum>t \<leftarrow> filter (\<lambda>t. in_metrics_window now t \<and> transaction_type t = Income) ts. \<bar>amount t\<bar>)"

definition window_debt_payments :: "DateObject \<Rightarrow> Transaction list \<Rightarrow> real" where
  "window_debt_payments now ts =
     (\<Sum>t \<leftarrow> filter (\<lambda>t. in_metrics_window now t \<and> transaction_type t = Expense
                         \<and> categorizeTransaction (description_or_empty t) = ''Debt'') ts. \<bar>amount t\<bar>)"

subsection \<open>Spending by category\<close>

record CategorySpending =
  amount :: real
  percentage :: real
  transactions :: nat

text \<open>
  \<^verbatim>\<open>SpendingByCategory\<close> is an object keyed by category name. Its keys are kept in the
  order of their insertion, the order \<^verbatim>\<open>Object.keys\<close> lists them in.
\<close>

type_synonym SpendingByCategory = "(string \<times> CategorySpending) list"

datatype js_error = TypeError

definition oneMonthAgo :: "DateObject \<Rightarrow> int option" where
  "oneMonthAgo now = new_Date (localTZA now) (getFullYear now) (getMonth now - 1) (getDate now)"

text \<open>\<^verbatim>\<open>categorySpending[category]\<close>, and the assignment to the fields of the bucket found.\<close>

definition lookup_bucket :: "SpendingByCategory \<Rightarrow> string \<Rightarrow> CategorySpending option" where
  "lookup_bucket categorySpending category = map_of categorySpending category"

fun update_bucket :: "string \<Rightarrow> (CategorySpending \<Rightarrow> CategorySpending) \<Rightarrow> SpendingByCategory \<Rightarrow> SpendingByCategory" where
  "update_bucket category f [] = []"
| "update_bucket category f ((k, bucket) # rest) =
     (if k = category then (k, f bucket) # rest else (k, bucket) # update_bucket category f rest)"

text \<open>
  The body of the first \<^verbatim>\<open>forEach\<close>, once the category of the transaction is known: a
  bucket of zeros is created when the category has none, then the amount is added and
  the count goes up by one. The category is one of the eleven names of the table, none of
  which is a property that an empty object inherits.
\<close>

definition add_to_category :: "SpendingByCategory \<Rightarrow> string \<Rightarrow> real \<Rightarrow> SpendingByCategory" where
  "add_to_category categorySpending category a =
     (let created = (if lookup_bucket categorySpending category = None
                     then categorySpending @ [(category, \<lparr>amount = 0, percentage = 0, transactions = 0\<rparr>)]
                     else categorySpending)
      in update_bucket category
           (\<lambda>bucket. bucket\<lparr>amount := amount bucket + a, transactions := transactions bucket + 1\<rparr>)
           created)"

text \<open>
  The first \<^verbatim>\<open>forEach\<close>. \<^verbatim>\<open>categorizeTransaction(transaction.description)\<close> calls
  \<^verbatim>\<open>toLowerCase\<close> on the description, which throws a \<^verbatim>\<open>TypeError\<close> when the
  description is absent.
\<close>

fun spending_loop :: "Transaction list \<Rightarrow> SpendingByCategory \<Rightarrow> js_error + SpendingByCategory" where
  "spending_loop [] categorySpending = Inr categorySpending"
| "spending_loop (transaction # rest) categorySpending =
     (case description transaction of
        None \<Rightarrow> Inl TypeError
      | Some d \<Rightarrow>
          spending_loop rest
            (add_to_category categorySpending (categorizeTransaction d) \<bar>Transaction.amount transaction\<bar>))"

text \<open>The second \<^verbatim>\<open>forEach\<close>, over the keys; \<open>expenseTotal\<close> is the \<^verbatim>\<open>totalExpenses\<close> it reads.\<close>

definition set_percentages :: "real \<Rightarrow> SpendingByCategory \<Rightarrow> SpendingByCategory" where
  "set_percentages expenseTotal categorySpending =
     map (\<lambda>(category, bucket).
            (category, bucket\<lparr>percentage :=
               (if expenseTotal > 0 then (amount bucket / expenseTotal) * 100 else 0)\<rparr>))
         categorySpending"

definition analyzeSpendingByCategory :: "DateObject \<Rightarrow> Transaction list \<Rightarrow> js_error + SpendingByCategory" where
  "analyzeSpendingByCategory now transactionList =
     (let expenseTransactions =
            filter (\<lambda>t. transaction_type t = Expense \<and> date_ge (transaction_date t) (oneMonthAgo now))
              transactionList;
          totalExpenses = foldl (\<lambda>sum t. sum + \<bar>Transaction.amount t\<bar>) 0 expenseTransactions
      in case spending_loop expenseTransactions [] of
           Inl e \<Rightarrow> Inl e
         | Inr categorySpending \<Rightarrow> Inr (set_percentages totalExpenses categorySpending))"

text \<open>The total of the one-month window as the specification words it.\<close>

definition window_expense_total :: "DateObject \<Rightarrow> Transaction list \<Rightarrow> real" where
  "window_expense_total now ts =
     (\<Sum>t \<leftarrow> filter (\<lambda>t. transaction_type t = Expense \<and> date_ge (transaction_date t) (oneMonthAgo now)) ts.
        \<bar>Transaction.amount t\<bar>)"

definition percentage_sum :: "SpendingByCategory \<Rightarrow> real" where
  "percentage_sum s = (\<Sum>entry \<leftarrow> s. percentage (snd entry))"

definition amount_sum :: "SpendingByCategory \<Rightarrow> real" where
  "amount_sum s = (\<Sum>entry \<leftarrow> s. amount (snd entry))"

subsection \<open>Sample data\<close>

definition mid_march_2024 :: DateObject where
  "mid_march_2024 = \<lparr>getFullYear = 2024, getMonth = 2, getDate = 15, timeWithinDay = 34200000, localTZA = 0\<rparr>"

definition mid_march_2025 :: DateObject where
  "mid_march_2025 = \<lparr>getFullYear = 2025, getMonth = 2, getDate = 15, timeWithinDay = 34200000, localTZA = 0\<rparr>"

text \<open>Two transactions of 2 March 2024 (UTC).\<close>

definition sample_transactions :: "Transaction list" where
  "sample_transactions =
     [\<lparr>Transaction.amount = 5000, description = Some ''Salary'', transaction_type = Income,
       transaction_date = Some 1709337600000\<rparr>,
      \<lparr>Transaction.amount = - 1500, description = Some ''Rent payment'', transaction_type = Expense,
       transaction_date = Some 1709337600000\<rparr>]"

definition debt_transactions :: "Transaction list" where
  "debt_transactions =
     [\<lparr>Transaction.amount = 3000, description = Some ''Salary'', transaction_type = Income,
       transaction_date = Some 1709337600000\<rparr>,
      \<lparr>Transaction.amount = - 200, description = Some ''Credit Card payment'', transaction_type = Expense,
       transaction_date = Some 1709337600000\<rparr>]"

definition zero_transactions :: "Transaction list" where
  "zero_transactions =
     [\<lparr>Transaction.amount = 0, description = Some ''Coffee'', transaction_type = Expense,
       transaction_date = Some 1709337600000\<rparr>]"

text \<open>Three clock readings of 2024: 31 May in the evening, 2 June and 1 June in the morning.\<close>

definition end_of_may_2024 :: DateObject where
  "end_of_may_2024 = \<lparr>getFullYear = 2024, getMonth = 4, getDate = 31, timeWithinDay = 72000000, localTZA = 0\<rparr>"

definition second_of_june_2024 :: DateObject where
  "second_of_june_2024 = \<lparr>getFullYear = 2024, getMonth = 5, getDate = 2, timeWithinDay = 28800000, localTZA = 0\<rparr>"

definition first_of_june_2024 :: DateObject where
  "first_of_june_2024 = \<lparr>getFullYear = 2024, getMonth = 5, getDate = 1, timeWithinDay = 28800000, localTZA = 0\<rparr>"

subsection \<open>Insights\<close>

datatype InsightType = Positive | Warning | Critical

datatype Priority = Low | Medium | High

record FinancialInsight =
  type :: InsightType
  title :: string
  description :: string
  recommendation :: string
  priority :: Priority

record UserProfile =
  annual_income :: real
  risk_tolerance :: string
  financial_goals :: "string list"

text \<open>
  \<^verbatim>\<open>Number.prototype.toFixed(1)\<close>: a minus sign for a negative number, then the integer
  \<open>n\<close> nearest to ten times the magnitude (the larger one of two) in decimal digits, with
  a point before the last digit. The exponent notation that the source switches to at
  magnitudes of \<open>10^21\<close> and more is not modelled.
\<close>

definition digit_char :: "nat \<Rightarrow> char" where
  "digit_char d = char_of (48 + d)"

fun decimal_digits :: "nat \<Rightarrow> string" where
  "decimal_digits n =
     (if n < 10 then [digit_char n] else decimal_digits (n div 10) @ [digit_char (n mod 10)])"

declare decimal_digits.simps [simp del]

definition toFixed1 :: "real \<Rightarrow> string" where
  "toFixed1 x =
     (let n = nat \<lfloor>\<bar>x\<bar> * 10 + 1 / 2\<rfloor>
      in (if x < 0 then ''-'' else []) @ decimal_digits (n div 10) @ ''.'' @ [digit_char (n mod 10)])"

text \<open>
  The five rule blocks of \<^verbatim>\<open>generateFinancialInsights\<close>, in the order of the source.
  Each takes the array \<^verbatim>\<open>insights\<close> and returns it after its \<^verbatim>\<open>push\<close>, if any.
\<close>

definition savings_rate_rule :: "FinancialMetrics \<Rightarrow> FinancialInsight list \<Rightarrow> FinancialInsight list" where
  "savings_rate_rule metrics insights =
     (if savingsRate metrics < 10 then
        insights @ [\<lparr>type = Critical,
          title = ''Low Savings Rate'',
          description = ''Your current savings rate is '' @ toFixed1 (savingsRate metrics)
            @ ''%, which is below the recommended 20%.'',
          recommendation = ''Consider reducing discretionary spending and automating your savings to reach at least 20% savings rate.'',
          priority = High\<rparr>]
      else if savingsRate metrics < 20 then
        insights @ [\<lparr>type = Warning,
          title = ''Moderate Savings Rate'',
          description = ''Your savings rate of '' @ toFixed1 (savingsRate metrics)
            @ ''% is good, but could be improved.'',
          recommendation = ''Try to increase your savings rate to 20% or higher for better financial security.'',
          priority = Medium\<rparr>]
      else
        insights @ [\<lparr>type = Positive,
          title = ''Excellent Savings Rate'',
          description = ''Your savings rate of '' @ toFixed1 (savingsRate metrics) @ ''% is excellent!'',
          recommendation = ''Keep up the great work! Consider investing your excess savings for long-term growth.'',
          priority = Low\<rparr>])"

definition emergency_fund_rule :: "FinancialMetrics \<Rightarrow> FinancialInsight list \<Rightarrow> FinancialInsight list" where
  "emergency_fund_rule metrics insights =
     (if emergencyFundMonths metrics < 3 then
        insights @ [\<lparr>type = Critical,
          title = ''Insufficient Emergency Fund'',
          description = ''Your emergency fund covers only '' @ toFixed1 (emergencyFundMonths metrics)
            @ '' months of expenses.'',
          recommendation = ''Build your emergency fund to cover 3-6 months of expenses before focusing on other investments.'',
          priority = High\<rparr>]
      else if emergencyFundMonths metrics < 6 then
        insights @ [\<lparr>type = Warning,
          title = ''Emergency Fund Needs Growth'',
          description = ''Your emergency fund covers '' @ toFixed1 (emergencyFundMonths metrics)
            @ '' months of expenses.'',
          recommendation = ''Consider building your emergency fund to 6 months of expenses for better security.'',
          priority = Medium\<rparr>]
      else insights)"

definition debt_to_income_rule :: "FinancialMetrics \<Rightarrow> FinancialInsight list \<Rightarrow> FinancialInsight list" where
  "debt_to_income_rule metrics insights =
     (if debtToIncomeRatio metrics > 40 then
        insights @ [\<lparr>type = Critical,
          title = ''High Debt-to-Income Ratio'',
          description = ''Your debt-to-income ratio of '' @ toFixed1 (debtToIncomeRatio metrics)
            @ ''% is concerning.'',
          recommendation = ''Focus on debt reduction strategies like the debt avalanche or snowball method.'',
          priority = High\<rparr>]
      else if debtToIncomeRatio metrics > 20 then
        insights @ [\<lparr>type = Warning,
          title = ''Moderate Debt Load'',
          description = ''Your debt-to-income ratio of '' @ toFixed1 (debtToIncomeRatio metrics)
            @ ''% could be improved.'',
          recommendation = ''Consider accelerating debt payments to reduce your debt burden.'',
          priority = Medium\<rparr>]
      else insights)"

definition housing_rule :: "SpendingByCategory \<Rightarrow> FinancialInsight list \<Rightarrow> FinancialInsight list" where
  "housing_rule spendingByCategory insights =
     (case lookup_bucket spendingByCategory ''Housing'' of
        None \<Rightarrow> insights
      | Some housingSpending \<Rightarrow>
          if percentage housingSpending > 30 then
            insights @ [\<lparr>type = Warning,
              title = ''High Housing Costs'',
              description = ''Housing costs represent '' @ toFixed1 (percentage housingSpending)
                @ ''% of your spending.'',
              recommendation = ''Consider ways to reduce housing costs or increase income, as the recommended limit is 30%.'',
              priority = Medium\<rparr>]
          else insights)"

definition food_rule :: "SpendingByCategory \<Rightarrow> FinancialInsight list \<Rightarrow> FinancialInsight list" where
  "food_rule spendingByCategory insights =
     (case lookup_bucket spendingByCategory ''Food'' of
        None \<Rightarrow> insights
      | Some foodSpending \<Rightarrow>
          if percentage foodSpending > 15 then
            insights @ [\<lparr>type = Warning,
              title = ''High Food Spending'',
              description = ''Food expenses represent '' @ toFixed1 (percentage foodSpending)
                @ ''% of your spending.'',
              recommendation = ''Consider meal planning and cooking at home more often to reduce food costs.'',
              priority = Low\<rparr>]
          else insights)"

text \<open>The comparator of the final \<^verbatim>\<open>sort\<close>.\<close>

definition priorityOrder :: "Priority \<Rightarrow> int" where
  "priorityOrder p = (case p of High \<Rightarrow> 3 | Medium \<Rightarrow> 2 | Low \<Rightarrow> 1)"

definition compare_priority :: "FinancialInsight \<Rightarrow> FinancialInsight \<Rightarrow> int" where
  "compare_priority a b = priorityOrder (priority b) - priorityOrder (priority a)"

text \<open>
  \<^verbatim>\<open>Array.prototype.sort(comparefn)\<close> is a stable sort. The model is the insertion sort
  that works from the right end of the array: an element goes in front of the first
  element of the sorted rest that the comparator does not put before it. For a
  comparator that compares by a key, as the one above does, every stable sort returns
  the same array.
\<close>

fun sort_insert :: "('a \<Rightarrow> 'a \<Rightarrow> int) \<Rightarrow> 'a \<Rightarrow> 'a list \<Rightarrow> 'a list" where
  "sort_insert comparefn x [] = [x]"
| "sort_insert comparefn x (y # ys) =
     (if comparefn x y \<le> 0 then x # y # ys else y # sort_insert comparefn x ys)"

fun array_sort :: "('a \<Rightarrow> 'a \<Rightarrow> int) \<Rightarrow> 'a list \<Rightarrow> 'a list" where
  "array_sort comparefn [] = []"
| "array_sort comparefn (x # xs) = sort_insert comparefn x (array_sort comparefn xs)"

definition generateFinancialInsights ::
    "FinancialMetrics \<Rightarrow> SpendingByCategory \<Rightarrow> UserProfile \<Rightarrow> FinancialInsight list" where
  "generateFinancialInsights metrics spendingByCategory userProfile =
     (let insights = [];
          insights = savings_rate_rule metrics insights;
          insights = emergency_fund_rule metrics insights;
          insights = debt_to_income_rule metrics insights;
          insights = housing_rule spendingByCategory insights;
          insights = food_rule spendingByCategory insights
      in array_sort compare_priority insights)"

text \<open>
  The insights in the order in which the rules are evaluated: what each rule pushes,
  for the savings rate, the emergency fund, the debt-to-income ratio, the housing share
  and the food share.
\<close>

definition pushed_insights :: "FinancialMetrics \<Rightarrow> SpendingByCategory \<Rightarrow> FinancialInsight list" where
  "pushed_insights metrics spendingByCategory =
     savings_rate_rule metrics [] @ emergency_fund_rule metrics [] @ debt_to_income_rule metrics []
       @ housing_rule spendingByCategory [] @ food_rule spendingByCategory []"

definition priority_weight :: "FinancialInsight \<Rightarrow> int" where
  "priority_weight i = priorityOrder (priority i)"

section \<open>Investment planning engine\<close>

subsection \<open>Asset allocation\<close>

record AssetAllocation =
  stocks :: real
  bonds :: real
  realEstate :: real
  commodities :: real
  cash :: real

text \<open>
  \<^verbatim>\<open>calculateAgeBasedAllocation(age, riskTolerance)\<close>; the tolerance is any string. The
  \<^verbatim>\<open>switch\<close> that sets \<^verbatim>\<open>stockPercentage\<close> comes first, with its \<^verbatim>\<open>default\<close> branch last.
\<close>

definition stock_percentage :: "real \<Rightarrow> string \<Rightarrow> real" where
  "stock_percentage age tolerance =
     (if tolerance = ''conservative'' then max (100 - age) 20
      else if tolerance = ''moderate'' then max (110 - age) 30
      else if tolerance = ''aggressive'' then max (120 - age) 40
      else max (110 - age) 30)"

definition calculateAgeBasedAllocation :: "real \<Rightarrow> string \<Rightarrow> AssetAllocation" where
  "calculateAgeBasedAllocation age tolerance =
     (let stockPercentage = stock_percentage age tolerance;
          bondPercentage = min (100 - stockPercentage) 60;
          remainingPercentage = 100 - stockPercentage - bondPercentage
      in \<lparr>stocks = stockPercentage,
          bonds = bondPercentage,
          realEstate = min (remainingPercentage * 0.6) 15,
          commodities = min (remainingPercentage * 0.3) 10,
          cash = max (remainingPercentage * 0.1) 5\<rparr>)"

text \<open>
  \<^verbatim>\<open>calculateGoalBasedAllocation(timeHorizon, riskTolerance, goalType)\<close>. The allocation
  that \<^verbatim>\<open>baseAllocation\<close> is initialised with is replaced in each of the three branches
  on the time horizon, and \<^verbatim>\<open>goalType\<close> is not read. The multiplier is looked up in an
  object literal; for a string that is not one of its three keys the lookup is
  \<^verbatim>\<open>undefined\<close>, every later number is \<^verbatim>\<open>NaN\<close>, and the model returns \<^term>\<open>None\<close> for
  the allocation of five \<^verbatim>\<open>NaN\<close>s.
\<close>

definition riskMultiplier :: "string \<Rightarrow> real option" where
  "riskMultiplier tolerance =
     map_of [(''conservative'', 0.7), (''moderate'', 1.0), (''aggressive'', 1.3)] tolerance"

definition horizon_allocation :: "real \<Rightarrow> AssetAllocation" where
  "horizon_allocation horizon =
     (if horizon < 3 then \<lparr>stocks = 30, bonds = 50, realEstate = 5, commodities = 5, cash = 10\<rparr>
      else if horizon < 10 then \<lparr>stocks = 50, bonds = 35, realEstate = 8, commodities = 5, cash = 2\<rparr>
      else \<lparr>stocks = 70, bonds = 20, realEstate = 7, commodities = 2, cash = 1\<rparr>)"

definition calculateGoalBasedAllocation :: "real \<Rightarrow> string \<Rightarrow> string \<Rightarrow> AssetAllocation option" where
  "calculateGoalBasedAllocation horizon tolerance goalType =
     (let baseAllocation = horizon_allocation horizon
      in case riskMultiplier tolerance of
           None \<Rightarrow> None
         | Some multiplier \<Rightarrow>
             (let stockAdjustment = (stocks baseAllocation - 50) * (multiplier - 1);
                  baseAllocation = baseAllocation
                    \<lparr>stocks := max (min (stocks baseAllocation + stockAdjustment) 90) 10\<rparr>;
                  baseAllocation = baseAllocation
                    \<lparr>bonds := max (min (bonds baseAllocation - stockAdjustment * 0.7) 80) 5\<rparr>;
                  total = foldl (\<lambda>sum val. sum + val) 0
                    [stocks baseAllocation, bonds baseAllocation, realEstate baseAllocation,
                     commodities baseAllocation, cash baseAllocation]
              in Some \<lparr>stocks = (stocks baseAllocation / total) * 100,
                       bonds = (bonds baseAllocation / total) * 100,
                       realEstate = (realEstate baseAllocation / total) * 100,
                       commodities = (commodities baseAllocation / total) * 100,
                       cash = (cash baseAllocation / total) * 100\<rparr>))"

text \<open>The sum of the five components of an allocation.\<close>

definition allocation_total :: "AssetAllocation \<Rightarrow> real" where
  "allocation_total a = stocks a + bonds a + realEstate a + commodities a + cash a"

subsection \<open>Contributions and goal projection\<close>

text \<open>
  \<^verbatim>\<open>Math.pow(base, exponent)\<close> for a positive exponent, the only case the source
  reaches: a negative base with an exponent that is not an integer gives \<^verbatim>\<open>NaN\<close>.
\<close>

definition Math_pow :: "real \<Rightarrow> real \<Rightarrow> real option" where
  "Math_pow base exponent =
     (if 0 < base then Some (base powr exponent)
      else if base = 0 then Some 0
      else if exponent = of_int \<lfloor>exponent\<rfloor>
      then Some (if even \<lfloor>exponent\<rfloor> then (- base) powr exponent else - ((- base) powr exponent))
      else None)"

text \<open>
  \<^verbatim>\<open>calculateMonthlyContributionNeeded\<close>. When the power is \<^verbatim>\<open>NaN\<close> so are the future
  value and the amount needed, the test \<^verbatim>\<open>amountNeeded <= 0\<close> is false and the result is
  \<^verbatim>\<open>NaN\<close>. With a monthly return of 0 the power is 1 and the annuity factor is the
  quotient \<^verbatim>\<open>0 / 0\<close>, which is \<^verbatim>\<open>NaN\<close>; \<^verbatim>\<open>a || b\<close> is \<^verbatim>\<open>b\<close> when \<^verbatim>\<open>a\<close> is
  \<^verbatim>\<open>NaN\<close> or 0.
\<close>

definition calculateMonthlyContributionNeeded :: "real \<Rightarrow> real \<Rightarrow> real \<Rightarrow> real \<Rightarrow> real option" where
  "calculateMonthlyContributionNeeded currentAmount targetAmount yearsToGoal expectedAnnualReturn =
     (if yearsToGoal \<le> 0 then Some (targetAmount - currentAmount)
      else
        (let monthlyReturn = expectedAnnualReturn / 12;
             totalMonths = yearsToGoal * 12
         in case Math_pow (1 + monthlyReturn) totalMonths of
              None \<Rightarrow> None
            | Some growth \<Rightarrow>
                (let futureValueCurrent = currentAmount * growth;
                     amountNeeded = targetAmount - futureValueCurrent
                 in if amountNeeded \<le> 0 then Some 0
                    else
                      (let annuityFactor =
                             (if monthlyReturn = 0 then None else Some ((growth - 1) / monthlyReturn));
                           divisor =
                             (case annuityFactor of
                                None \<Rightarrow> totalMonths
                              | Some factor \<Rightarrow> if factor = 0 then totalMonths else factor);
                           monthlyPayment = amountNeeded / divisor
                       in Some (max monthlyPayment 0)))))"

record GoalProjection =
  projectedAmount :: real
  yearsToTarget :: real
  onTrack :: bool

definition maxMonths :: nat where
  "maxMonths = 50 * 12"

text \<open>
  The \<^verbatim>\<open>while\<close> loop of \<^verbatim>\<open>projectInvestmentGoal\<close> on its two variables, the pair of
  \<^verbatim>\<open>amount\<close> and \<^verbatim>\<open>months\<close>: one pass through its body, its condition, and the loop.
\<close>

definition goal_body :: "real \<Rightarrow> real \<Rightarrow> real \<times> nat \<Rightarrow> real \<times> nat" where
  "goal_body monthlyReturn monthlyContribution state =
     (let amount = fst state;
          months = snd state
      in (amount * (1 + monthlyReturn) + monthlyContribution, months + 1))"

definition goal_continues :: "real \<Rightarrow> real \<times> nat \<Rightarrow> bool" where
  "goal_continues targetAmount state =
     (let amount = fst state;
          months = snd state
      in amount < targetAmount \<and> months < maxMonths)"

function goal_loop :: "real \<Rightarrow> real \<Rightarrow> real \<Rightarrow> real \<times> nat \<Rightarrow> real \<times> nat" where
  "goal_loop monthlyReturn monthlyContribution targetAmount state =
     (if goal_continues targetAmount state
      then goal_loop monthlyReturn monthlyContribution targetAmount
             (goal_body monthlyReturn monthlyContribution state)
      else state)"
  by pat_completeness auto
termination
  by (relation "measure (\<lambda>(monthlyReturn, monthlyContribution, targetAmount, state). maxMonths - snd state)")
    (auto simp: goal_continues_def goal_body_def)

declare goal_loop.simps [simp del]

definition projectInvestmentGoal :: "real \<Rightarrow> real \<Rightarrow> real \<Rightarrow> real \<Rightarrow> GoalProjection" where
  "projectInvestmentGoal currentAmount monthlyContribution expectedAnnualReturn targetAmount =
     (let monthlyReturn = expectedAnnualReturn / 12;
          final = goal_loop monthlyReturn monthlyContribution targetAmount (currentAmount, 0);
          amount = fst final;
          months = snd final
      in \<lparr>projectedAmount = amount,
          yearsToTarget = real months / 12,
          onTrack = (months < maxMonths)\<rparr>)"

text \<open>The loop state after \<open>n\<close> passes through the body, and the amount simulated for month \<open>n\<close>.\<close>

definition goal_state :: "real \<Rightarrow> real \<Rightarrow> real \<Rightarrow> nat \<Rightarrow> real \<times> nat" where
  "goal_state monthlyReturn monthlyContribution currentAmount n =
     ((goal_body monthlyReturn monthlyContribution) ^^ n) (currentAmount, 0)"

definition simulated_amount :: "real \<Rightarrow> real \<Rightarrow> real \<Rightarrow> nat \<Rightarrow> real" where
  "simulated_amount currentAmount monthlyContribution expectedAnnualReturn n =
     fst (goal_state (expectedAnnualReturn / 12) monthlyContribution currentAmount n)"

subsection \<open>Sample data of the insight generator\<close>

definition sample_metrics :: FinancialMetrics where
  "sample_metrics = \<lparr>totalIncome = 5000, totalExpenses = 1500, netIncome = 3500, savingsRate = 70,
     debtToIncomeRatio = 25, emergencyFundMonths = 0, monthlyBudgetVariance = 0\<rparr>"

definition sample_spending :: SpendingByCategory where
  "sample_spending =
     [(''Housing'', \<lparr>amount = 1200, percentage = 80, transactions = 1\<rparr>),
      (''Food'', \<lparr>amount = 300, percentage = 20, transactions = 2\<rparr>)]"

definition sample_user :: UserProfile where
  "sample_user = \<lparr>annual_income = 60000, risk_tolerance = ''moderate'', financial_goals = []\<rparr>"

section \<open>Portfolio performance in double precision\<close>

text \<open>
  What is proved of \<^verbatim>\<open>calculatePortfolioPerformance\<close> concerns the exact numbers that the
  function returns, so this function is modelled with the arithmetic the program runs
  on: every \<^verbatim>\<open>number\<close> is an IEEE-754 binary64 value and every operation returns the
  exact result rounded to the nearest such value, ties going to the even significand. A
  value is kept as the real number it stands for.

  \<open>binary64\<close> rounds a real number to 53 significant bits. For a result whose magnitude
  lies in the normal range of the format, from \<open>2^-1022\<close> to the largest double, it is the
  rounding of the machine. The limits of the exponent are not modelled: below that range
  the machine rounds to a multiple of \<open>2^-1074\<close>, above it to an infinity.
\<close>

definition roundTiesToEven :: "real \<Rightarrow> int" where
  "roundTiesToEven y =
     (let f = \<lfloor>y\<rfloor>;
          d = y - of_int f
      in if d < 1 / 2 then f
         else if 1 / 2 < d then f + 1
         else if even f then f else f + 1)"

definition binary64 :: "real \<Rightarrow> real" where
  "binary64 x =
     (if x = 0 then 0
      else (let e = \<lfloor>log 2 \<bar>x\<bar>\<rfloor> - 52
            in of_int (roundTiesToEven (x / 2 powr of_int e)) * 2 powr of_int e))"

text \<open>The operators \<^verbatim>\<open>*\<close>, \<^verbatim>\<open>+\<close>, \<^verbatim>\<open>-\<close> and \<^verbatim>\<open>/\<close> on two doubles.\<close>

definition times64 :: "real \<Rightarrow> real \<Rightarrow> real" where
  "times64 x y = binary64 (x * y)"

definition plus64 :: "real \<Rightarrow> real \<Rightarrow> real" where
  "plus64 x y = binary64 (x + y)"

definition minus64 :: "real \<Rightarrow> real \<Rightarrow> real" where
  "minus64 x y = binary64 (x - y)"

definition divide64 :: "real \<Rightarrow> real \<Rightarrow> real" where
  "divide64 x y = binary64 (x / y)"

record Investment =
  symbol :: string
  shares :: real
  purchase_price :: real
  current_price :: real

record PortfolioPerformance =
  totalValue :: real
  totalGain :: real
  totalGainPercentage :: real
  dayChange :: real
  dayChangePercentage :: real
  diversificationScore :: real

text \<open>
  The body of the \<^verbatim>\<open>forEach\<close> of \<^verbatim>\<open>calculatePortfolioPerformance\<close>, on the three
  variables it updates: \<^verbatim>\<open>totalValue\<close>, \<^verbatim>\<open>totalCost\<close> and \<^verbatim>\<open>dayChange\<close>, kept as a
  triple in this order. The literal \<^verbatim>\<open>0.99\<close> is the double nearest to 99/100.
\<close>

definition performance_step :: "real \<times> real \<times> real \<Rightarrow> Investment \<Rightarrow> real \<times> real \<times> real" where
  "performance_step acc investment =
     (let totalValue = fst acc;
          totalCost = fst (snd acc);
          dayChange = snd (snd acc);
          currentValue = times64 (shares investment) (current_price investment);
          costBasis = times64 (shares investment) (purchase_price investment);
          previousPrice = times64 (current_price investment) (binary64 0.99)
      in (plus64 totalValue currentValue,
          plus64 totalCost costBasis,
          plus64 dayChange
            (times64 (shares investment) (minus64 (current_price investment) previousPrice))))"

text \<open>
  \<^verbatim>\<open>calculatePortfolioPerformance(investments)\<close>. The number of distinct symbols is the
  size of the \<^verbatim>\<open>Set\<close>; the literals 10 and 100 are doubles as they stand.
\<close>

definition calculatePortfolioPerformance :: "Investment list \<Rightarrow> PortfolioPerformance" where
  "calculatePortfolioPerformance investments =
     (let totals = foldl performance_step (0, 0, 0) investments;
          totalValue = fst totals;
          totalCost = fst (snd totals);
          dayChange = snd (snd totals);
          totalGain = minus64 totalValue totalCost;
          totalGainPercentage = (if totalCost > 0 then times64 (divide64 totalGain totalCost) 100 else 0);
          dayChangePercentage = (if totalValue > 0 then times64 (divide64 dayChange totalValue) 100 else 0);
          uniqueSymbols = length (remdups (map symbol investments));
          diversificationScore = min (times64 (divide64 (real uniqueSymbols) 10) 100) 100
      in \<lparr>totalValue = totalValue,
          totalGain = totalGain,
          totalGainPercentage = totalGainPercentage,
          dayChange = dayChange,
          dayChangePercentage = dayChangePercentage,
          diversificationScore = diversificationScore\<rparr>)"

text \<open>
  The holdings that the stored columns can hold: shares are \<^verbatim>\<open>DECIMAL(12,6)\<close> and prices
  \<^verbatim>\<open>DECIMAL(12,2)\<close>, so a number of shares that is not zero lies between \<open>10^-6\<close> and
  \<open>10^6\<close> and a price that is not zero between \<open>10^-2\<close> and \<open>10^10\<close>. For up to a million such
  holdings every product, difference, sum and quotient that the function computes is zero
  or lies in the normal range of binary64.
\<close>

definition holding_in_range :: "Investment \<Rightarrow> bool" where
  "holding_in_range i =
     ((shares i = 0 \<or> (1 / 10 ^ 6 \<le> shares i \<and> shares i \<le> 10 ^ 6))
      \<and> (current_price i = 0 \<or> (1 / 100 \<le> current_price i \<and> current_price i \<le> 10 ^ 10))
      \<and> (purchase_price i = 0 \<or> (1 / 100 \<le> purchase_price i \<and> purchase_price i \<le> 10 ^ 10)))"

text \<open>The value of the holdings in exact arithmetic: the sum of shares times current price.\<close>

definition holdings_value :: "Investment list \<Rightarrow> real" where
  "holdings_value investments = (\<Sum>i \<leftarrow> investments. shares i * current_price i)"

text \<open>
  The quantities of the error analysis: the unit roundoff of binary64, the factors
  that bound one term of the day change from below and from above in units of shares
  times price, and the slack that a million and one roundings in a row can add.
\<close>

definition unit_roundoff :: real where
  "unit_roundoff = 1 / 2 ^ 53"

definition term_lower :: real where
  "term_lower = (1 - unit_roundoff)\<^sup>2 * (1 - 0.99 * (1 + unit_roundoff)\<^sup>2)"

definition term_upper :: real where
  "term_upper = (1 + unit_roundoff)\<^sup>2 * (1 - 0.99 * (1 - unit_roundoff)\<^sup>2)"

definition growth_slack :: real where
  "growth_slack = 1000001 * unit_roundoff"

subsection \<open>Sample holdings\<close>

definition sample_holdings :: "Investment list" where
  "sample_holdings = [\<lparr>symbol = ''VTI'', shares = 2, purchase_price = 10, current_price = 15\<rparr>]"


section \<open>Properties of the categorizer\<close>

lemma starts_with_prefix: "starts_with s k = prefix k s"
  by (induction s k rule: starts_with.induct) auto

lemma includes_sublist: "string_includes s k = sublist k s"
proof (induction s)
  case Nil
  show ?case by (cases k) simp_all
next
  case (Cons c cs)
  show ?case
  proof (cases k)
    case Nil
    then show ?thesis by simp
  next
    case (Cons a as)
    with Cons.IH show ?thesis
      by (simp add: starts_with_prefix sublist_Cons_right)
  qed
qed

lemma array_some_iff: "array_some p xs = (\<exists>x \<in> set xs. p x)"
  by (induction xs) auto

lemma some_keyword_match:
  "array_some (\<lambda>keyword. string_includes (toLowerCase d) keyword) keywords = keyword_match d keywords"
  by (simp add: array_some_iff includes_sublist keyword_match_def)

lemma categorize_loop_find:
  "categorize_loop entries (toLowerCase d) =
     (case find (\<lambda>(category, keywords). keyword_match d keywords) entries of
        Some (category, keywords) \<Rightarrow> category
      | None \<Rightarrow> ''Other'')"
  by (induction entries) (auto simp: some_keyword_match)

lemma categorize_loop_names:
  "categorize_loop entries lowerDesc \<in> set (map fst entries) \<union> {''Other''}"
proof (induction entries)
  case Nil
  show ?case by simp
next
  case (Cons e entries)
  obtain category kws where e: "e = (category, kws)"
    by (cases e)
  from Cons.IH show ?case
    unfolding e by (cases "array_some (\<lambda>keyword. string_includes lowerDesc keyword) kws") auto
qed

lemma categorize_loop_first:
  assumes "i < length entries"
    and "keyword_match d (snd (entries ! i))"
    and "\<forall>j < i. \<not> keyword_match d (snd (entries ! j))"
  shows "categorize_loop entries (toLowerCase d) = fst (entries ! i)"
  using assms
proof (induction entries arbitrary: i)
  case Nil
  then show ?case by simp
next
  case (Cons e entries)
  obtain category kws where e: "e = (category, kws)"
    by (cases e)
  show ?case
  proof (cases i)
    case 0
    with Cons.prems e show ?thesis
      by (simp add: some_keyword_match)
  next
    case (Suc n)
    from Cons.prems(3) Suc have no_head: "\<not> keyword_match d kws"
      using e by force
    have later: "\<forall>j < n. \<not> keyword_match d (snd (entries ! j))"
    proof (intro allI impI)
      fix j
      assume "j < n"
      then have "Suc j < i"
        using Suc by simp
      with Cons.prems(3) have "\<not> keyword_match d (snd ((e # entries) ! Suc j))"
        by blast
      then show "\<not> keyword_match d (snd (entries ! j))"
        by simp
    qed
    from Cons.prems Suc have "n < length entries" "keyword_match d (snd (entries ! n))"
      by simp_all
    from Cons.IH [OF this later] no_head e Suc show ?thesis
      by (simp add: some_keyword_match)
  qed
qed

lemma categorize_loop_no_match:
  assumes "\<forall>e \<in> set entries. \<not> keyword_match d (snd e)"
  shows "categorize_loop entries (toLowerCase d) = ''Other''"
  using assms by (induction entries) (auto simp: some_keyword_match)

lemma category_names_table: "map fst TRANSACTION_CATEGORIES = category_names"
  by (simp add: TRANSACTION_CATEGORIES_def category_names_def)

text \<open>
  Claim C1. \<^verbatim>\<open>categorizeTransaction\<close> is a total function of the description alone. It
  lower-cases the description and goes through the categories in the declared order
  Housing, Transportation, Food, Healthcare, Entertainment, Shopping, Education, Savings,
  Debt, Income, Other; its result is the first category one of whose keywords is a
  substring of the lower-cased description, and \<open>Other\<close> when no keyword matches, as for
  the empty description. The result is always one of the eleven names, and a category
  that matches with no match before it in the table is the result, so the category
  declared earlier wins when two categories share a matching keyword.
\<close>

theorem categorizeTransaction_first_match:
  "categorizeTransaction d = categorize_spec d
   \<and> map fst TRANSACTION_CATEGORIES = category_names
   \<and> categorizeTransaction d \<in> set category_names
   \<and> categorizeTransaction [] = ''Other''
   \<and> ((\<forall>e \<in> set TRANSACTION_CATEGORIES. \<not> keyword_match d (snd e))
        \<longrightarrow> categorizeTransaction d = ''Other'')
   \<and> (\<forall>i < length TRANSACTION_CATEGORIES.
        keyword_match d (snd (TRANSACTION_CATEGORIES ! i))
        \<and> (\<forall>j < i. \<not> keyword_match d (snd (TRANSACTION_CATEGORIES ! j)))
        \<longrightarrow> categorizeTransaction d = fst (TRANSACTION_CATEGORIES ! i))"
proof (intro conjI allI impI)
  show "categorizeTransaction d = categorize_spec d"
    by (simp add: categorizeTransaction_def categorize_spec_def categorize_loop_find)
  show "map fst TRANSACTION_CATEGORIES = category_names"
    by (rule category_names_table)
  have "categorizeTransaction d \<in> set (map fst TRANSACTION_CATEGORIES) \<union> {''Other''}"
    unfolding categorizeTransaction_def Let_def by (rule categorize_loop_names)
  then show "categorizeTransaction d \<in> set category_names"
    unfolding category_names_table by (auto simp: category_names_def)
  have "\<forall>e \<in> set TRANSACTION_CATEGORIES. \<not> keyword_match [] (snd e)"
    by (simp add: TRANSACTION_CATEGORIES_def keyword_match_def toLowerCase_def)
  then show "categorizeTransaction [] = ''Other''"
    unfolding categorizeTransaction_def Let_def by (rule categorize_loop_no_match)
next
  assume "\<forall>e \<in> set TRANSACTION_CATEGORIES. \<not> keyword_match d (snd e)"
  then show "categorizeTransaction d = ''Other''"
    unfolding categorizeTransaction_def Let_def by (rule categorize_loop_no_match)
next
  fix i
  assume "i < length TRANSACTION_CATEGORIES"
    and "keyword_match d (snd (TRANSACTION_CATEGORIES ! i))
         \<and> (\<forall>j < i. \<not> keyword_match d (snd (TRANSACTION_CATEGORIES ! j)))"
  then show "categorizeTransaction d = fst (TRANSACTION_CATEGORIES ! i)"
    unfolding categorizeTransaction_def Let_def by (intro categorize_loop_first) simp_all
qed

theorem categorizeTransaction_first_match_witness:
  "keyword_match ''Car Insurance'' (snd (TRANSACTION_CATEGORIES ! 0))
   \<and> keyword_match ''Car Insurance'' (snd (TRANSACTION_CATEGORIES ! 1))
   \<and> categorizeTransaction ''Car Insurance'' = ''Housing''
   \<and> categorizeTransaction ''Quarterly fee'' = ''Other''"
proof -
  have first: "keyword_match ''Car Insurance'' (snd (TRANSACTION_CATEGORIES ! 0))"
    by code_simp
  have second: "keyword_match ''Car Insurance'' (snd (TRANSACTION_CATEGORIES ! 1))"
    by code_simp
  have none: "\<forall>e \<in> set TRANSACTION_CATEGORIES. \<not> keyword_match ''Quarterly fee'' (snd e)"
    by code_simp
  have len: "0 < length TRANSACTION_CATEGORIES"
    by (simp add: TRANSACTION_CATEGORIES_def)
  have name: "fst (TRANSACTION_CATEGORIES ! 0) = ''Housing''"
    by (simp add: TRANSACTION_CATEGORIES_def)
  from categorizeTransaction_first_match [of "''Car Insurance''"] first len name
  have a: "categorizeTransaction ''Car Insurance'' = ''Housing''"
    by auto
  from categorizeTransaction_first_match [of "''Quarterly fee''"] none
  have b: "categorizeTransaction ''Quarterly fee'' = ''Other''"
    by blast
  from first second a b show ?thesis by blast
qed
section \<open>Properties of the metrics\<close>

lemma foldl_abs_amount:
  "foldl (\<lambda>sum t. sum + \<bar>f t\<bar>) a ts = a + (\<Sum>t \<leftarrow> ts. \<bar>f t :: real\<bar>)"
  by (induction ts arbitrary: a) simp_all

lemma filter_twice: "filter p (filter q xs) = filter (\<lambda>x. q x \<and> p x) xs"
  by (induction xs) simp_all

text \<open>
  Claim C3. For every transaction list (and every clock reading and emergency fund
  balance) the debt-to-income ratio of \<^verbatim>\<open>calculateFinancialMetrics\<close> is
  \<open>(debtPayments / 3) / monthlyIncome * 100\<close> when \<open>monthlyIncome = totalIncome / 3\<close> is
  positive and 0 otherwise, where \<open>totalIncome\<close> is the sum of the absolute amounts of the
  income transactions in the window and \<open>debtPayments\<close> the sum of the absolute amounts
  of the expense transactions in the window that the categorizer resolves to \<open>Debt\<close>.
  Both quantities are divided by 3, as in the source.
\<close>

theorem debtToIncomeRatio_formula:
  "debtToIncomeRatio (calculateFinancialMetrics now ts efb) =
     (if window_income now ts / 3 > 0
      then (window_debt_payments now ts / 3) / (window_income now ts / 3) * 100
      else 0)
   \<and> totalIncome (calculateFinancialMetrics now ts efb) = window_income now ts"
  by (simp add: calculateFinancialMetrics_def Let_def window_income_def window_debt_payments_def
      in_metrics_window_def foldl_abs_amount filter_twice conj_commute conj_left_commute)

text \<open>
  In exact arithmetic the two divisions by 3 cancel: the ratio is the debt payments of the
  window as a percentage of its income.
\<close>

lemma debt_ratio_thirds_cancel:
  "debtToIncomeRatio (calculateFinancialMetrics now ts efb) =
     (if window_income now ts > 0 then window_debt_payments now ts / window_income now ts * 100 else 0)"
  by (simp add: calculateFinancialMetrics_def Let_def window_income_def window_debt_payments_def
      in_metrics_window_def foldl_abs_amount filter_twice conj_commute conj_left_commute)

section \<open>Properties of the spending aggregation\<close>

lemma update_bucket_keys: "map fst (update_bucket k f s) = map fst s"
  by (induction s) auto

lemma update_bucket_append_new:
  "k \<notin> set (map fst s) \<Longrightarrow> update_bucket k f (s @ [(k, b)]) = s @ [(k, f b)]"
  by (induction s) auto

lemma update_bucket_amount:
  assumes "map_of s k = Some b0"
    and "\<And>b. amount (f b) = amount b + a"
  shows "amount_sum (update_bucket k f s) = amount_sum s + a"
  using assms(1)
proof (induction s)
  case Nil
  then show ?case by simp
next
  case (Cons e s)
  obtain k' b where e: "e = (k', b)"
    by (cases e)
  show ?case
  proof (cases "k' = k")
    case True
    then show ?thesis
      by (simp add: e amount_sum_def assms(2))
  next
    case False
    with Cons e show ?thesis
      by (simp add: amount_sum_def)
  qed
qed

lemma add_to_category_amount: "amount_sum (add_to_category s k a) = amount_sum s + a"
proof (cases "map_of s k")
  case None
  then have "k \<notin> set (map fst s)"
    by (simp add: map_of_eq_None_iff)
  then show ?thesis
    using None
    by (simp add: add_to_category_def lookup_bucket_def update_bucket_append_new amount_sum_def)
next
  case (Some b0)
  then show ?thesis
    by (simp add: add_to_category_def lookup_bucket_def update_bucket_amount [where ?b0.0 = b0])
qed

lemma add_to_category_distinct:
  "distinct (map fst s) \<Longrightarrow> distinct (map fst (add_to_category s k a))"
  by (auto simp: add_to_category_def lookup_bucket_def update_bucket_keys map_of_eq_None_iff)

lemma spending_loop_sum:
  "spending_loop ts s = Inr s' \<Longrightarrow>
     amount_sum s' = amount_sum s + (\<Sum>t \<leftarrow> ts. \<bar>Transaction.amount t\<bar>)"
proof (induction ts arbitrary: s)
  case Nil
  then show ?case by simp
next
  case (Cons t ts)
  then show ?case
    by (cases "Transaction.description t") (simp_all add: add_to_category_amount)
qed

lemma spending_loop_distinct:
  "spending_loop ts s = Inr s' \<Longrightarrow> distinct (map fst s) \<Longrightarrow> distinct (map fst s')"
proof (induction ts arbitrary: s)
  case Nil
  then show ?case by simp
next
  case (Cons t ts)
  then show ?case
    by (cases "Transaction.description t") (simp_all add: add_to_category_distinct)
qed

lemma spending_loop_described:
  "(\<forall>t \<in> set ts. Transaction.description t \<noteq> None) \<Longrightarrow> \<exists>s'. spending_loop ts s = Inr s'"
  by (induction ts arbitrary: s) auto

lemma percentage_sum_set:
  "percentage_sum (set_percentages T s) = (if T > 0 then amount_sum s / T * 100 else 0)"
proof (induction s)
  case Nil
  show ?case by (simp add: percentage_sum_def set_percentages_def amount_sum_def)
next
  case (Cons e s)
  obtain k b where e: "e = (k, b)"
    by (cases e)
  from Cons show ?case
    by (simp add: percentage_sum_def set_percentages_def amount_sum_def e add_divide_distrib
        distrib_right)
qed

lemma set_percentages_zero:
  "\<not> T > 0 \<Longrightarrow> entry \<in> set (set_percentages T s) \<Longrightarrow> percentage (snd entry) = 0"
  by (auto simp: set_percentages_def)

lemma set_percentages_keys: "map fst (set_percentages T s) = map fst s"
  by (simp add: set_percentages_def case_prod_unfold comp_def)

lemma window_expense_total_nonneg: "0 \<le> window_expense_total now ts"
  unfolding window_expense_total_def by (rule sum_list_nonneg) auto

lemma analyzeSpendingByCategory_returns:
  assumes "\<forall>t \<in> set ts. Transaction.description t \<noteq> None"
  shows "\<exists>s. analyzeSpendingByCategory now ts = Inr s"
proof -
  define es where "es = filter (\<lambda>t. transaction_type t = Expense
      \<and> date_ge (transaction_date t) (oneMonthAgo now)) ts"
  from assms have "\<forall>t \<in> set es. Transaction.description t \<noteq> None"
    by (simp add: es_def)
  then obtain cs where "spending_loop es [] = Inr cs"
    using spending_loop_described by blast
  then show ?thesis
    by (simp add: analyzeSpendingByCategory_def Let_def es_def [symmetric])
qed

lemma analyzeSpendingByCategory_percentages:
  assumes "analyzeSpendingByCategory now ts = Inr s"
  shows "(0 < window_expense_total now ts \<longrightarrow> percentage_sum s = 100)
         \<and> (window_expense_total now ts = 0 \<longrightarrow> (\<forall>entry \<in> set s. percentage (snd entry) = 0))
         \<and> distinct (map fst s)"
proof -
  define es where "es = filter (\<lambda>t. transaction_type t = Expense
      \<and> date_ge (transaction_date t) (oneMonthAgo now)) ts"
  define T where "T = window_expense_total now ts"
  have total: "foldl (\<lambda>sum t. sum + \<bar>Transaction.amount t\<bar>) 0 es = T"
    by (simp add: foldl_abs_amount T_def window_expense_total_def es_def)
  from assms obtain cs where loop: "spending_loop es [] = Inr cs"
    and s: "s = set_percentages T cs"
    unfolding analyzeSpendingByCategory_def Let_def es_def [symmetric] total
    by (auto split: sum.splits)
  have "amount_sum cs = T"
    using spending_loop_sum [OF loop]
    by (simp add: amount_sum_def T_def window_expense_total_def es_def)
  then have sum: "percentage_sum s = (if T > 0 then T / T * 100 else 0)"
    by (simp add: s percentage_sum_set)
  have pos: "0 < T \<longrightarrow> percentage_sum s = 100"
    using sum by simp
  have zero: "T = 0 \<longrightarrow> (\<forall>entry \<in> set s. percentage (snd entry) = 0)"
    using set_percentages_zero [of T _ cs] by (auto simp: s)
  have keys: "distinct (map fst s)"
    using spending_loop_distinct [OF loop] by (simp add: s set_percentages_keys)
  from pos zero keys show ?thesis
    by (simp add: T_def)
qed

text \<open>
  Claim C4. For every transaction list, in the \<^verbatim>\<open>SpendingByCategory\<close> that
  \<^verbatim>\<open>analyzeSpendingByCategory\<close> returns the percentages of the categories present add up to
  exactly 100, in exact arithmetic, when the total of the absolute amounts of the expense
  transactions in the one-month window is positive, and every percentage is 0 when that
  total is 0. Each category is present once and the total is never negative, so one of
  the two cases applies. The function returns on every list whose transactions all have
  a description.
\<close>

theorem percentages_sum_to_100:
  "(analyzeSpendingByCategory now ts = Inr s \<longrightarrow>
      (0 < window_expense_total now ts \<longrightarrow> percentage_sum s = 100)
      \<and> (window_expense_total now ts = 0 \<longrightarrow> (\<forall>entry \<in> set s. percentage (snd entry) = 0))
      \<and> distinct (map fst s))
   \<and> 0 \<le> window_expense_total now ts
   \<and> ((\<forall>t \<in> set ts. Transaction.description t \<noteq> None)
        \<longrightarrow> (\<exists>s'. analyzeSpendingByCategory now ts = Inr s'))"
  using analyzeSpendingByCategory_percentages [of now ts s] window_expense_total_nonneg [of now ts]
    analyzeSpendingByCategory_returns [of ts now]
  by blast
section \<open>The sample data evaluated\<close>

lemmas calendar_defs = new_Date_def MakeDay_def DayFromYear_def DaysBeforeMonth_def InLeapYear_def
  msPerDay_def

lemma sample_categories:
  "categorizeTransaction ''Salary'' = ''Income''"
  "categorizeTransaction ''Rent payment'' = ''Housing''"
  "categorizeTransaction ''Credit Card payment'' = ''Debt''"
  "categorizeTransaction ''Coffee'' = ''Food''"
  "categorizeTransaction [] = ''Other''"
  by code_simp+

lemma sample_windows:
  "threeMonthsAgo mid_march_2024 = Some 1702598400000"
  "threeMonthsAgo mid_march_2025 = Some 1734220800000"
  "oneMonthAgo mid_march_2024 = Some 1707955200000"
  "oneMonthAgo mid_march_2025 = Some 1739577600000"
  by (simp_all add: threeMonthsAgo_def oneMonthAgo_def mid_march_2024_def mid_march_2025_def
      calendar_defs)

lemma june_windows:
  "threeMonthsAgo end_of_may_2024 = Some 1709337600000"
  "threeMonthsAgo second_of_june_2024 = Some 1709337600000"
  "oneMonthAgo end_of_may_2024 = Some 1714521600000"
  "oneMonthAgo first_of_june_2024 = Some 1714521600000"
  by (simp_all add: threeMonthsAgo_def oneMonthAgo_def end_of_may_2024_def second_of_june_2024_def
      first_of_june_2024_def calendar_defs)

lemma metrics_2024: "totalIncome (calculateFinancialMetrics mid_march_2024 sample_transactions 0) = 5000"
  by (simp add: calculateFinancialMetrics_def sample_windows sample_transactions_def date_ge_def)

lemma metrics_2025: "totalIncome (calculateFinancialMetrics mid_march_2025 sample_transactions 0) = 0"
  by (simp add: calculateFinancialMetrics_def sample_windows sample_transactions_def date_ge_def)

lemma spending_2024:
  "analyzeSpendingByCategory mid_march_2024 sample_transactions =
     Inr [(''Housing'', \<lparr>amount = 1500, percentage = 100, transactions = 1\<rparr>)]"
  by (simp add: analyzeSpendingByCategory_def sample_windows sample_transactions_def date_ge_def
      sample_categories add_to_category_def lookup_bucket_def set_percentages_def)

lemma spending_2025: "analyzeSpendingByCategory mid_march_2025 sample_transactions = Inr []"
  by (simp add: analyzeSpendingByCategory_def sample_windows sample_transactions_def date_ge_def
      set_percentages_def)

section \<open>The clock\<close>

text \<open>
  Claim C2 says that the two computations take their reference time as an argument
  \<open>asOf\<close> and so return the same result whenever they are run. In the source neither
  function has such an argument: each calls \<^verbatim>\<open>new Date()\<close>. The same transactions
  evaluated in the middle of March 2024 and in the middle of March 2025 give different
  metrics and a different spending breakdown.
\<close>

theorem ambient_clock_counterexample:
  "calculateFinancialMetrics mid_march_2024 sample_transactions 0
     \<noteq> calculateFinancialMetrics mid_march_2025 sample_transactions 0
   \<and> analyzeSpendingByCategory mid_march_2024 sample_transactions
     \<noteq> analyzeSpendingByCategory mid_march_2025 sample_transactions"
proof
  show "calculateFinancialMetrics mid_march_2024 sample_transactions 0
     \<noteq> calculateFinancialMetrics mid_march_2025 sample_transactions 0"
    using metrics_2024 metrics_2025 by auto
  show "analyzeSpendingByCategory mid_march_2024 sample_transactions
     \<noteq> analyzeSpendingByCategory mid_march_2025 sample_transactions"
    by (simp add: spending_2024 spending_2025)
qed

text \<open>
  Claim C2, as amended. \<^verbatim>\<open>calculateFinancialMetrics\<close> and \<^verbatim>\<open>analyzeSpendingByCategory\<close>
  read the ambient clock once. Their results are determined by their arguments together
  with that reading, and depend on the reading only through the start of the window it
  gives: two evaluations on the same arguments agree whenever their readings give the
  same window start, as any two readings of the same local calendar day in the same time
  zone do.
\<close>

theorem results_depend_on_window_start:
  "(threeMonthsAgo now1 = threeMonthsAgo now2
      \<longrightarrow> calculateFinancialMetrics now1 ts efb = calculateFinancialMetrics now2 ts efb)
   \<and> (oneMonthAgo now1 = oneMonthAgo now2
      \<longrightarrow> analyzeSpendingByCategory now1 ts = analyzeSpendingByCategory now2 ts)
   \<and> (getFullYear now1 = getFullYear now2 \<and> getMonth now1 = getMonth now2
        \<and> getDate now1 = getDate now2 \<and> localTZA now1 = localTZA now2
      \<longrightarrow> calculateFinancialMetrics now1 ts efb = calculateFinancialMetrics now2 ts efb
          \<and> analyzeSpendingByCategory now1 ts = analyzeSpendingByCategory now2 ts)"
  by (simp add: calculateFinancialMetrics_def analyzeSpendingByCategory_def threeMonthsAgo_def
      oneMonthAgo_def)

theorem results_depend_on_window_start_witness:
  "end_of_may_2024 \<noteq> second_of_june_2024
   \<and> threeMonthsAgo end_of_may_2024 = threeMonthsAgo second_of_june_2024
   \<and> calculateFinancialMetrics end_of_may_2024 sample_transactions 0
       = calculateFinancialMetrics second_of_june_2024 sample_transactions 0
   \<and> end_of_may_2024 \<noteq> first_of_june_2024
   \<and> oneMonthAgo end_of_may_2024 = oneMonthAgo first_of_june_2024
   \<and> analyzeSpendingByCategory end_of_may_2024 sample_transactions
       = analyzeSpendingByCategory first_of_june_2024 sample_transactions"
proof -
  have three: "threeMonthsAgo end_of_may_2024 = threeMonthsAgo second_of_june_2024"
    by (simp add: june_windows)
  have one: "oneMonthAgo end_of_may_2024 = oneMonthAgo first_of_june_2024"
    by (simp add: june_windows)
  have differ: "end_of_may_2024 \<noteq> second_of_june_2024" "end_of_may_2024 \<noteq> first_of_june_2024"
    by (simp_all add: end_of_may_2024_def second_of_june_2024_def first_of_june_2024_def)
  from results_depend_on_window_start [of end_of_may_2024 second_of_june_2024 sample_transactions 0] three
  have metrics: "calculateFinancialMetrics end_of_may_2024 sample_transactions 0
       = calculateFinancialMetrics second_of_june_2024 sample_transactions 0"
    by blast
  from results_depend_on_window_start [of end_of_may_2024 first_of_june_2024 sample_transactions 0] one
  have spending: "analyzeSpendingByCategory end_of_may_2024 sample_transactions
       = analyzeSpendingByCategory first_of_june_2024 sample_transactions"
    by blast
  from three one differ metrics spending show ?thesis
    by blast
qed

section \<open>Witnesses for the metrics and the spending aggregation\<close>

lemma debt_window_sums:
  "window_income mid_march_2024 debt_transactions = 3000"
  "window_debt_payments mid_march_2024 debt_transactions = 200"
  by (simp_all add: window_income_def window_debt_payments_def in_metrics_window_def sample_windows
      debt_transactions_def date_ge_def description_or_empty_def sample_categories)

theorem debtToIncomeRatio_formula_witness:
  "debtToIncomeRatio (calculateFinancialMetrics mid_march_2024 debt_transactions 0) = 20 / 3
   \<and> debtToIncomeRatio (calculateFinancialMetrics mid_march_2025 debt_transactions 0) = 0"
proof -
  have late: "window_income mid_march_2025 debt_transactions = 0"
    by (simp add: window_income_def in_metrics_window_def sample_windows debt_transactions_def
        date_ge_def)
  from debtToIncomeRatio_formula [of mid_march_2024 debt_transactions 0]
  have a: "debtToIncomeRatio (calculateFinancialMetrics mid_march_2024 debt_transactions 0) = 20 / 3"
    by (simp add: debt_window_sums)
  from debtToIncomeRatio_formula [of mid_march_2025 debt_transactions 0]
  have b: "debtToIncomeRatio (calculateFinancialMetrics mid_march_2025 debt_transactions 0) = 0"
    by (simp add: late)
  from a b show ?thesis by simp
qed

lemma spending_zero:
  "analyzeSpendingByCategory mid_march_2024 zero_transactions =
     Inr [(''Food'', \<lparr>amount = 0, percentage = 0, transactions = 1\<rparr>)]"
  by (simp add: analyzeSpendingByCategory_def sample_windows zero_transactions_def date_ge_def
      sample_categories add_to_category_def lookup_bucket_def set_percentages_def)

lemma sample_totals:
  "window_expense_total mid_march_2024 sample_transactions = 1500"
  "window_expense_total mid_march_2024 zero_transactions = 0"
  by (simp_all add: window_expense_total_def sample_windows sample_transactions_def
      zero_transactions_def date_ge_def)

theorem percentages_sum_to_100_witness:
  "analyzeSpendingByCategory mid_march_2024 sample_transactions =
     Inr [(''Housing'', \<lparr>amount = 1500, percentage = 100, transactions = 1\<rparr>)]
   \<and> 0 < window_expense_total mid_march_2024 sample_transactions
   \<and> percentage_sum [(''Housing'', \<lparr>amount = 1500, percentage = 100, transactions = 1\<rparr>)] = 100
   \<and> analyzeSpendingByCategory mid_march_2024 zero_transactions =
     Inr [(''Food'', \<lparr>amount = 0, percentage = 0, transactions = 1\<rparr>)]
   \<and> window_expense_total mid_march_2024 zero_transactions = 0
   \<and> list_all (\<lambda>entry. percentage (snd entry) = 0)
        [(''Food'', \<lparr>amount = 0, percentage = 0, transactions = 1\<rparr>)]
   \<and> list_all (\<lambda>t. Transaction.description t \<noteq> None) sample_transactions"
proof -
  have pos: "0 < window_expense_total mid_march_2024 sample_transactions"
    by (simp add: sample_totals)
  from percentages_sum_to_100 [of mid_march_2024 sample_transactions
      "[(''Housing'', \<lparr>amount = 1500, percentage = 100, transactions = 1\<rparr>)]"] spending_2024 pos
  have a: "percentage_sum [(''Housing'', \<lparr>amount = 1500, percentage = 100, transactions = 1\<rparr>)] = 100"
    by blast
  from percentages_sum_to_100 [of mid_march_2024 zero_transactions
      "[(''Food'', \<lparr>amount = 0, percentage = 0, transactions = 1\<rparr>)]"] spending_zero sample_totals(2)
  have "\<forall>entry \<in> set [(''Food'', \<lparr>amount = 0, percentage = 0, transactions = 1\<rparr>)].
      percentage (snd entry) = 0"
    by blast
  then have b: "list_all (\<lambda>entry. percentage (snd entry) = 0)
        [(''Food'', \<lparr>amount = 0, percentage = 0, transactions = 1\<rparr>)]"
    by (simp only: list_all_iff)
  have c: "list_all (\<lambda>t. Transaction.description t \<noteq> None) sample_transactions"
    by (simp add: sample_transactions_def)
  from spending_2024 pos a spending_zero sample_totals(2) b c show ?thesis
    by blast
qed
section \<open>Properties of the insight ordering\<close>

lemma rule_appends:
  "savings_rate_rule m xs = xs @ savings_rate_rule m []"
  "emergency_fund_rule m xs = xs @ emergency_fund_rule m []"
  "debt_to_income_rule m xs = xs @ debt_to_income_rule m []"
  "housing_rule s xs = xs @ housing_rule s []"
  "food_rule s xs = xs @ food_rule s []"
  by (simp_all add: savings_rate_rule_def emergency_fund_rule_def debt_to_income_rule_def
      housing_rule_def food_rule_def split: option.splits)

lemma generateFinancialInsights_pushed:
  "generateFinancialInsights m s p = array_sort compare_priority (pushed_insights m s)"
proof -
  have "food_rule s (housing_rule s (debt_to_income_rule m (emergency_fund_rule m (savings_rate_rule m []))))
      = pushed_insights m s"
    unfolding pushed_insights_def
    by (subst rule_appends(5), subst rule_appends(4), subst rule_appends(3), subst rule_appends(2))
      simp
  then show ?thesis
    by (simp add: generateFinancialInsights_def Let_def)
qed

lemma compare_priority_le: "(compare_priority a b \<le> 0) = (priority_weight b \<le> priority_weight a)"
  by (simp add: compare_priority_def priority_weight_def)

lemma mset_sort_insert: "mset (sort_insert c x ys) = add_mset x (mset ys)"
  by (induction ys) simp_all

lemma mset_array_sort: "mset (array_sort c xs) = mset xs"
  by (induction xs) (simp_all add: mset_sort_insert)

lemma set_sort_insert: "set (sort_insert c x ys) = insert x (set ys)"
  by (induction ys) auto

lemma sorted_sort_insert:
  assumes "\<And>a b. (c a b \<le> 0) = (k b \<le> (k a :: int))"
    and "sorted_wrt (\<lambda>a b. k b \<le> k a) ys"
  shows "sorted_wrt (\<lambda>a b. k b \<le> k a) (sort_insert c x ys)"
  using assms(2)
proof (induction ys)
  case Nil
  show ?case by simp
next
  case (Cons y ys)
  show ?case
  proof (cases "c x y \<le> 0")
    case True
    then have "k y \<le> k x"
      by (simp add: assms(1))
    with Cons.prems True show ?thesis
      by auto
  next
    case False
    then have "k x \<le> k y"
      using assms(1) [of x y] by simp
    with Cons False show ?thesis
      by (auto simp: set_sort_insert)
  qed
qed

lemma sorted_array_sort:
  assumes "\<And>a b. (c a b \<le> 0) = (k b \<le> (k a :: int))"
  shows "sorted_wrt (\<lambda>a b. k b \<le> k a) (array_sort c xs)"
  by (induction xs) (simp_all add: sorted_sort_insert [OF assms])

lemma filter_sort_insert:
  assumes "\<And>a b. (c a b \<le> 0) = (k b \<le> (k a :: int))"
    and "sorted_wrt (\<lambda>a b. k b \<le> k a) ys"
  shows "filter (\<lambda>i. k i = w) (sort_insert c x ys) = filter (\<lambda>i. k i = w) (x # ys)"
  using assms(2)
proof (induction ys)
  case Nil
  show ?case by simp
next
  case (Cons y ys)
  show ?case
  proof (cases "c x y \<le> 0")
    case True
    then show ?thesis by simp
  next
    case False
    then have "k x < k y"
      using assms(1) [of x y] by simp
    with Cons False show ?thesis
      by auto
  qed
qed

lemma filter_array_sort:
  assumes "\<And>a b. (c a b \<le> 0) = (k b \<le> (k a :: int))"
  shows "filter (\<lambda>i. k i = w) (array_sort c xs) = filter (\<lambda>i. k i = w) xs"
proof (induction xs)
  case Nil
  show ?case by simp
next
  case (Cons x xs)
  have "filter (\<lambda>i. k i = w) (array_sort c (x # xs))
      = filter (\<lambda>i. k i = w) (x # array_sort c xs)"
    by (simp add: filter_sort_insert [OF assms sorted_array_sort [OF assms]])
  with Cons show ?case
    by simp
qed

text \<open>
  Claim C5. For every metrics value, spending map and user profile, the list that
  \<^verbatim>\<open>generateFinancialInsights\<close> returns is the stable sort, by descending priority weight
  (high 3, medium 2, low 1), of the insights pushed in the order the rules are evaluated
  in (savings rate, emergency fund, debt-to-income, housing share, food share): it holds
  the same insights, an insight is never followed by one of a higher weight, and the
  insights of each weight stand in the order in which their rules pushed them.
\<close>

theorem insights_stable_by_priority:
  "mset (generateFinancialInsights m s p) = mset (pushed_insights m s)
   \<and> sorted_wrt (\<lambda>a b. priority_weight b \<le> priority_weight a) (generateFinancialInsights m s p)
   \<and> (\<forall>w. filter (\<lambda>i. priority_weight i = w) (generateFinancialInsights m s p)
          = filter (\<lambda>i. priority_weight i = w) (pushed_insights m s))
   \<and> priorityOrder High = 3 \<and> priorityOrder Medium = 2 \<and> priorityOrder Low = 1"
proof (intro conjI allI)
  show "mset (generateFinancialInsights m s p) = mset (pushed_insights m s)"
    by (simp add: generateFinancialInsights_pushed mset_array_sort)
  show "sorted_wrt (\<lambda>a b. priority_weight b \<le> priority_weight a) (generateFinancialInsights m s p)"
    unfolding generateFinancialInsights_pushed
    by (rule sorted_array_sort) (rule compare_priority_le)
  show "filter (\<lambda>i. priority_weight i = w) (generateFinancialInsights m s p)
          = filter (\<lambda>i. priority_weight i = w) (pushed_insights m s)" for w
    unfolding generateFinancialInsights_pushed
    by (rule filter_array_sort) (rule compare_priority_le)
qed (simp_all add: priorityOrder_def)
section \<open>Properties of the goal projection\<close>

lemma goal_body_months: "snd ((goal_body r c ^^ n) state) = snd state + n"
  by (induction n) (simp_all add: goal_body_def Let_def)

lemma goal_state_months: "snd (goal_state r c cur n) = n"
  by (simp add: goal_state_def goal_body_months)

lemma goal_loop_passes:
  "\<exists>k. goal_loop r c t state = (goal_body r c ^^ k) state
       \<and> (\<forall>j < k. goal_continues t ((goal_body r c ^^ j) state))
       \<and> \<not> goal_continues t ((goal_body r c ^^ k) state)"
proof (induction r c t state rule: goal_loop.induct)
  case (1 r c t state)
  show ?case
  proof (cases "goal_continues t state")
    case False
    then have "goal_loop r c t state = (goal_body r c ^^ 0) state"
      by (simp add: goal_loop.simps)
    with False show ?thesis
      by (intro exI [of _ 0]) simp
  next
    case True
    from "1.IH" [OF True] obtain k where
      k: "goal_loop r c t (goal_body r c state) = (goal_body r c ^^ k) (goal_body r c state)"
        "\<forall>j < k. goal_continues t ((goal_body r c ^^ j) (goal_body r c state))"
        "\<not> goal_continues t ((goal_body r c ^^ k) (goal_body r c state))"
      by blast
    have "goal_loop r c t state = (goal_body r c ^^ Suc k) state"
      using True k(1) by (subst goal_loop.simps) (simp add: funpow_swap1)
    moreover have "\<forall>j < Suc k. goal_continues t ((goal_body r c ^^ j) state)"
    proof (intro allI impI)
      fix j
      assume "j < Suc k"
      show "goal_continues t ((goal_body r c ^^ j) state)"
      proof (cases j)
        case 0
        with True show ?thesis by simp
      next
        case (Suc i)
        with \<open>j < Suc k\<close> k(2) show ?thesis
          by (simp add: funpow_swap1)
      qed
    qed
    moreover have "\<not> goal_continues t ((goal_body r c ^^ Suc k) state)"
      using k(3) by (simp add: funpow_swap1)
    ultimately show ?thesis
      by blast
  qed
qed

lemma goal_continues_iff:
  "goal_continues t (goal_state r c cur n) = (fst (goal_state r c cur n) < t \<and> n < maxMonths)"
  by (simp add: goal_continues_def Let_def goal_state_months)

text \<open>
  Claim C6. For every input, the loop of \<^verbatim>\<open>projectInvestmentGoal\<close> ends after some number
  \<open>k\<close> of passes through its body with \<open>k\<close> at most 600, the cap of fifty years of
  months: the loop condition holds before each of the \<open>k\<close> passes and fails after the
  last, and the result reports \<open>k / 12\<close> years and the amount simulated for month \<open>k\<close>.
  \<open>onTrack\<close> is true exactly when the simulated amount reaches the target in some month
  before the cap, that is in one of the months 0 to 599.
\<close>

theorem projectInvestmentGoal_bounded:
  "(\<exists>k \<le> maxMonths.
      goal_loop (e / 12) c t (cur, 0) = goal_state (e / 12) c cur k
      \<and> (\<forall>j < k. goal_continues t (goal_state (e / 12) c cur j))
      \<and> \<not> goal_continues t (goal_state (e / 12) c cur k)
      \<and> yearsToTarget (projectInvestmentGoal cur c e t) = real k / 12
      \<and> projectedAmount (projectInvestmentGoal cur c e t) = simulated_amount cur c e k)
   \<and> maxMonths = 600
   \<and> onTrack (projectInvestmentGoal cur c e t) = (\<exists>n < maxMonths. t \<le> simulated_amount cur c e n)"
proof -
  from goal_loop_passes [of "e / 12" c t "(cur, 0)"] obtain k where
    k: "goal_loop (e / 12) c t (cur, 0) = goal_state (e / 12) c cur k"
      "\<forall>j < k. goal_continues t (goal_state (e / 12) c cur j)"
      "\<not> goal_continues t (goal_state (e / 12) c cur k)"
    unfolding goal_state_def by blast
  have bound: "k \<le> maxMonths"
  proof (rule ccontr)
    assume "\<not> k \<le> maxMonths"
    then have "maxMonths < k"
      by simp
    with k(2) have "goal_continues t (goal_state (e / 12) c cur maxMonths)"
      by blast
    then show False
      by (simp add: goal_continues_iff)
  qed
  have months: "snd (goal_loop (e / 12) c t (cur, 0)) = k"
    by (simp add: k(1) goal_state_months)
  have years: "yearsToTarget (projectInvestmentGoal cur c e t) = real k / 12"
    by (simp add: projectInvestmentGoal_def Let_def months)
  have amount: "projectedAmount (projectInvestmentGoal cur c e t) = simulated_amount cur c e k"
    by (simp add: projectInvestmentGoal_def Let_def k(1) simulated_amount_def)
  have track: "onTrack (projectInvestmentGoal cur c e t) = (k < maxMonths)"
    by (simp add: projectInvestmentGoal_def Let_def months)
  have reach: "(k < maxMonths) = (\<exists>n < maxMonths. t \<le> simulated_amount cur c e n)"
  proof
    assume "k < maxMonths"
    with k(3) have "t \<le> simulated_amount cur c e k"
      by (simp add: goal_continues_iff simulated_amount_def)
    with \<open>k < maxMonths\<close> show "\<exists>n < maxMonths. t \<le> simulated_amount cur c e n"
      by blast
  next
    assume "\<exists>n < maxMonths. t \<le> simulated_amount cur c e n"
    then obtain n where n: "n < maxMonths" "t \<le> simulated_amount cur c e n"
      by blast
    show "k < maxMonths"
    proof (rule ccontr)
      assume "\<not> k < maxMonths"
      with n(1) have "n < k"
        by simp
      with k(2) have "goal_continues t (goal_state (e / 12) c cur n)"
        by blast
      with n(2) show False
        by (simp add: goal_continues_iff simulated_amount_def)
    qed
  qed
  have "maxMonths = 600"
    by (simp add: maxMonths_def)
  with k bound years amount track reach show ?thesis
    by blast
qed

lemma simulated_idle: "simulated_amount 0 0 0 n = 0"
  by (induction n) (simp_all add: simulated_amount_def goal_state_def goal_body_def Let_def)

lemma simulated_three: "simulated_amount 0 100 0 3 = 300"
  by (simp add: simulated_amount_def goal_state_def goal_body_def Let_def eval_nat_numeral)

theorem projectInvestmentGoal_bounded_witness:
  "onTrack (projectInvestmentGoal 0 100 0 250) \<and> \<not> onTrack (projectInvestmentGoal 0 0 0 1)"
proof -
  have "\<exists>n < maxMonths. (250::real) \<le> simulated_amount 0 100 0 n"
    by (intro exI [of _ 3]) (simp add: simulated_three maxMonths_def)
  with projectInvestmentGoal_bounded [of 0 100 250 0]
  have a: "onTrack (projectInvestmentGoal 0 100 0 250)"
    by blast
  have "\<not> (\<exists>n < maxMonths. (1::real) \<le> simulated_amount 0 0 0 n)"
    by (simp add: simulated_idle)
  with projectInvestmentGoal_bounded [of 0 0 1 0]
  have b: "\<not> onTrack (projectInvestmentGoal 0 0 0 1)"
    by blast
  from a b show ?thesis ..
qed
section \<open>Properties of the contribution and the allocations\<close>

lemma zero_return_linear:
  assumes "0 < years" and "cur < target"
  shows "calculateMonthlyContributionNeeded cur target years 0 = Some ((target - cur) / (years * 12))"
proof -
  have "0 < (target - cur) / (years * 12)"
    using assms by (intro divide_pos_pos) simp_all
  then have "max ((target - cur) / (years * 12)) 0 = (target - cur) / (years * 12)"
    by (simp only: max_def) simp
  moreover have "\<not> target - cur \<le> 0"
    using assms by simp
  moreover have "Math_pow (1 + 0 / 12) (years * 12) = Some 1"
    by (simp add: Math_pow_def)
  ultimately show ?thesis
    using assms(1) by (simp add: calculateMonthlyContributionNeeded_def Let_def)
qed

text \<open>
  Claim C7. \<^verbatim>\<open>calculateMonthlyContributionNeeded(0, 12000, 1, 0)\<close> is exactly 1000. With an
  expected return of zero the annuity factor is the quotient \<^verbatim>\<open>0 / 0\<close>, and the function
  divides the gap that is left by the number of months instead: for every positive
  number of years and every target above the current amount the result is the gap divided
  by twelve times the years, here 12000 / 12.
\<close>

theorem zero_return_contribution:
  "calculateMonthlyContributionNeeded 0 12000 1 0 = Some 1000
   \<and> (0 < years \<and> cur < target
        \<longrightarrow> calculateMonthlyContributionNeeded cur target years 0 = Some ((target - cur) / (years * 12)))"
proof
  show "calculateMonthlyContributionNeeded 0 12000 1 0 = Some 1000"
    by (simp add: calculateMonthlyContributionNeeded_def Math_pow_def)
  show "0 < years \<and> cur < target
        \<longrightarrow> calculateMonthlyContributionNeeded cur target years 0 = Some ((target - cur) / (years * 12))"
    using zero_return_linear by blast
qed

theorem zero_return_contribution_witness:
  "calculateMonthlyContributionNeeded 0 12000 1 0 = Some (12000 / 12)"
  using zero_return_contribution [of 1 0 12000] by simp

subsection \<open>Age-based allocation\<close>

text \<open>
  Claim C10. For every age below 20 and the risk tolerance \<open>aggressive\<close>,
  \<^verbatim>\<open>calculateAgeBasedAllocation\<close> returns \<open>120 - age\<close> for stocks, which is more than 100,
  and \<open>age - 20\<close> for bonds, which is negative: the components are not clamped to the
  range of a percentage.
\<close>

theorem young_aggressive_allocation:
  assumes "age < 20"
  shows "stocks (calculateAgeBasedAllocation age ''aggressive'') = 120 - age
         \<and> 100 < stocks (calculateAgeBasedAllocation age ''aggressive'')
         \<and> bonds (calculateAgeBasedAllocation age ''aggressive'') = age - 20
         \<and> bonds (calculateAgeBasedAllocation age ''aggressive'') < 0"
  using assms by (simp add: calculateAgeBasedAllocation_def stock_percentage_def Let_def)

theorem young_aggressive_allocation_witness:
  "stocks (calculateAgeBasedAllocation 18 ''aggressive'') = 102
   \<and> bonds (calculateAgeBasedAllocation 18 ''aggressive'') = - 2"
  using young_aggressive_allocation [of 18] by simp

text \<open>
  The components of an age-based allocation add up to 103 or more, those of a goal-based
  allocation to exactly 100, so the two functions never return the same allocation.
\<close>

lemma age_based_total: "103 \<le> allocation_total (calculateAgeBasedAllocation age tolerance)"
proof -
  define s where "s = stock_percentage age tolerance"
  have s20: "20 \<le> s"
    by (simp add: s_def stock_percentage_def max_def)
  have total: "allocation_total (calculateAgeBasedAllocation age tolerance) =
      s + min (100 - s) 60 + min ((100 - s - min (100 - s) 60) * 0.6) 15
        + min ((100 - s - min (100 - s) 60) * 0.3) 10 + max ((100 - s - min (100 - s) 60) * 0.1) 5"
    by (simp add: s_def calculateAgeBasedAllocation_def Let_def allocation_total_def)
  show ?thesis
  proof (cases "40 \<le> s")
    case True
    then show ?thesis
      unfolding total by (simp add: min_def max_def)
  next
    case False
    with s20 show ?thesis
      unfolding total by (simp add: min_def max_def field_simps)
  qed
qed

lemma horizon_allocation_positive:
  "0 < realEstate (horizon_allocation h) + commodities (horizon_allocation h) + cash (horizon_allocation h)"
  by (simp add: horizon_allocation_def)

lemma goal_based_total:
  assumes "calculateGoalBasedAllocation h tolerance g = Some a"
  shows "allocation_total a = 100"
proof -
  from assms obtain m where m: "riskMultiplier tolerance = Some m"
    by (auto simp: calculateGoalBasedAllocation_def Let_def split: option.splits)
  define b where "b = horizon_allocation h"
  define adj where "adj = (stocks b - 50) * (m - 1)"
  define s where "s = max (min (stocks b + adj) 90) 10"
  define d where "d = max (min (bonds b - adj * 0.7) 80) 5"
  define total where "total = s + d + realEstate b + commodities b + cash b"
  have "10 \<le> s" "5 \<le> d"
    by (simp_all add: s_def d_def)
  with horizon_allocation_positive [of h] have pos: "0 < total"
    by (simp add: total_def b_def)
  from assms m have a: "a = \<lparr>stocks = s / total * 100, bonds = d / total * 100,
      realEstate = realEstate b / total * 100, commodities = commodities b / total * 100,
      cash = cash b / total * 100\<rparr>"
    by (simp add: calculateGoalBasedAllocation_def Let_def b_def adj_def s_def d_def total_def
        add.assoc)
  have "allocation_total a = (s + d + realEstate b + commodities b + cash b) / total * 100"
    by (simp add: a allocation_total_def add_divide_distrib distrib_right)
  with pos show ?thesis
    by (simp add: total_def)
qed

lemma allocations_never_identical:
  "calculateGoalBasedAllocation h tolerance g \<noteq> Some (calculateAgeBasedAllocation age tolerance')"
proof
  assume "calculateGoalBasedAllocation h tolerance g = Some (calculateAgeBasedAllocation age tolerance')"
  then have "allocation_total (calculateAgeBasedAllocation age tolerance') = 100"
    by (rule goal_based_total)
  with age_based_total [of age tolerance'] show False
    by simp
qed
section \<open>Witness for the insight ordering\<close>

theorem insights_stable_by_priority_witness:
  "map title (filter (\<lambda>i. priority_weight i = 2)
      (generateFinancialInsights sample_metrics sample_spending sample_user))
     = [''Moderate Debt Load'', ''High Housing Costs'']
   \<and> map title (filter (\<lambda>i. priority_weight i = 1)
      (generateFinancialInsights sample_metrics sample_spending sample_user))
     = [''Excellent Savings Rate'', ''High Food Spending'']"
proof -
  have pushed: "map title (filter (\<lambda>i. priority_weight i = w) (pushed_insights sample_metrics sample_spending))
      = map fst (filter (\<lambda>e. snd e = w)
          [(''Excellent Savings Rate'', 1), (''Insufficient Emergency Fund'', 3),
           (''Moderate Debt Load'', 2), (''High Housing Costs'', 2), (''High Food Spending'', 1)])" for w
    by (simp add: pushed_insights_def sample_metrics_def sample_spending_def savings_rate_rule_def
      emergency_fund_rule_def debt_to_income_rule_def housing_rule_def food_rule_def
      lookup_bucket_def priority_weight_def priorityOrder_def)
  from insights_stable_by_priority [of sample_metrics sample_spending sample_user]
  have "filter (\<lambda>i. priority_weight i = w)
          (generateFinancialInsights sample_metrics sample_spending sample_user)
      = filter (\<lambda>i. priority_weight i = w) (pushed_insights sample_metrics sample_spending)" for w
    by blast
  then show ?thesis
    by (simp add: pushed)
qed
section \<open>Properties of the double precision arithmetic\<close>

lemma roundTiesToEven_error: "\<bar>of_int (roundTiesToEven y) - y\<bar> \<le> 1 / 2"
proof -
  have "of_int \<lfloor>y\<rfloor> \<le> y" "y < of_int \<lfloor>y\<rfloor> + 1"
    by linarith+
  then show ?thesis
    by (auto simp: roundTiesToEven_def Let_def)
qed

lemma binade_bounds:
  assumes "x \<noteq> 0"
  shows "2 powr of_int \<lfloor>log 2 \<bar>x\<bar>\<rfloor> \<le> \<bar>x\<bar>" "\<bar>x\<bar> < 2 powr (of_int \<lfloor>log 2 \<bar>x\<bar>\<rfloor> + 1)"
proof -
  have pos: "0 < \<bar>x\<bar>"
    using assms by simp
  have "of_int \<lfloor>log 2 \<bar>x\<bar>\<rfloor> \<le> log 2 \<bar>x\<bar>"
    by simp
  then have "2 powr of_int \<lfloor>log 2 \<bar>x\<bar>\<rfloor> \<le> 2 powr log 2 \<bar>x\<bar>"
    by (simp only: powr_le_cancel_iff [of 2] one_less_numeral_iff semiring_norm)
  with pos show "2 powr of_int \<lfloor>log 2 \<bar>x\<bar>\<rfloor> \<le> \<bar>x\<bar>"
    by simp
  have "log 2 \<bar>x\<bar> < of_int \<lfloor>log 2 \<bar>x\<bar>\<rfloor> + 1"
    by linarith
  then have "2 powr log 2 \<bar>x\<bar> < 2 powr (of_int \<lfloor>log 2 \<bar>x\<bar>\<rfloor> + 1)"
    by (simp only: powr_less_cancel_iff [of 2] one_less_numeral_iff semiring_norm)
  with pos show "\<bar>x\<bar> < 2 powr (of_int \<lfloor>log 2 \<bar>x\<bar>\<rfloor> + 1)"
    by simp
qed

lemma binade_unique:
  assumes "2 powr of_int e \<le> \<bar>x\<bar>" and "\<bar>x\<bar> < 2 powr (of_int e + 1)"
  shows "\<lfloor>log 2 \<bar>x\<bar>\<rfloor> = e"
proof -
  have pos: "0 < \<bar>x\<bar>"
    using assms(1) by (smt (verit) powr_gt_zero)
  then have nz: "x \<noteq> 0"
    by simp
  from binade_bounds(2) [OF nz] assms(1)
  have "(2::real) powr of_int e < 2 powr (of_int \<lfloor>log 2 \<bar>x\<bar>\<rfloor> + 1)"
    by linarith
  then have lo: "e < \<lfloor>log 2 \<bar>x\<bar>\<rfloor> + 1"
    by simp
  from binade_bounds(1) [OF nz] assms(2)
  have "(2::real) powr of_int \<lfloor>log 2 \<bar>x\<bar>\<rfloor> < 2 powr (of_int e + 1)"
    by linarith
  then have hi: "\<lfloor>log 2 \<bar>x\<bar>\<rfloor> < e + 1"
    by simp
  from lo hi show ?thesis
    by linarith
qed

lemma binary64_error: "\<bar>binary64 x - x\<bar> \<le> unit_roundoff * \<bar>x\<bar>"
proof (cases "x = 0")
  case True
  then show ?thesis by (simp add: binary64_def)
next
  case False
  define b where "b = \<lfloor>log 2 \<bar>x\<bar>\<rfloor>"
  define s :: real where "s = 2 powr of_int (b - 52)"
  have s_pos: "0 < s"
    by (simp add: s_def)
  have fl: "binary64 x = of_int (roundTiesToEven (x / s)) * s"
    using False by (simp add: binary64_def Let_def b_def s_def)
  have "binary64 x - x = (of_int (roundTiesToEven (x / s)) - x / s) * s"
    using s_pos by (simp add: fl field_simps)
  then have "\<bar>binary64 x - x\<bar> = \<bar>of_int (roundTiesToEven (x / s)) - x / s\<bar> * s"
    using s_pos by (simp add: abs_mult)
  also have "\<dots> \<le> 1 / 2 * s"
    using roundTiesToEven_error [of "x / s"] s_pos by (intro mult_right_mono) simp_all
  also have "1 / 2 * s = unit_roundoff * 2 powr of_int b"
  proof -
    have "(2::real) powr (of_int b - 52) = 2 powr of_int b / 2 powr 52"
      by (rule powr_diff)
    then show ?thesis
      by (simp add: s_def unit_roundoff_def)
  qed
  also have "\<dots> \<le> unit_roundoff * \<bar>x\<bar>"
    using binade_bounds(1) [OF False] by (simp add: b_def unit_roundoff_def)
  finally show ?thesis .
qed

lemma binary64_in_binade:
  assumes "2 powr of_int e \<le> \<bar>x\<bar>" and "\<bar>x\<bar> < 2 powr (of_int e + 1)"
  shows "binary64 x = of_int (roundTiesToEven (x / 2 powr of_int (e - 52))) * 2 powr of_int (e - 52)"
proof -
  have "x \<noteq> 0"
    using assms(1) by (smt (verit) powr_gt_zero abs_zero)
  then show ?thesis
    by (simp add: binary64_def Let_def binade_unique [OF assms])
qed

text \<open>
  The rounding of a number whose binade is known, for the binades from 1 upwards and
  for those below 1.
\<close>

lemma two_powr_neg: "(2::real) powr of_int (- int n) = 1 / 2 ^ n"
  by (simp add: powr_minus powr_realpow inverse_eq_divide)

lemma binary64_upper_binade:
  assumes "2 ^ k \<le> \<bar>x\<bar>" and "\<bar>x\<bar> < 2 ^ Suc k" and "k \<le> 52"
  shows "binary64 x = of_int (roundTiesToEven (x * 2 ^ (52 - k))) / 2 ^ (52 - k)"
proof -
  have a: "2 powr of_int (int k) \<le> \<bar>x\<bar>"
    using assms(1) by (simp add: powr_realpow)
  have "(2::real) powr (of_int (int k) + 1) = 2 ^ Suc k"
    by (simp add: powr_add powr_realpow)
  with assms(2) have b: "\<bar>x\<bar> < 2 powr (of_int (int k) + 1)"
    by simp
  have "int k - 52 = - int (52 - k)"
    using assms(3) by simp
  then have s: "(2::real) powr of_int (int k - 52) = 1 / 2 ^ (52 - k)"
    by (simp only: two_powr_neg)
  show ?thesis
    unfolding binary64_in_binade [OF a b] s by simp
qed

lemma binary64_lower_binade:
  assumes "1 \<le> \<bar>x\<bar> * 2 ^ j" and "\<bar>x\<bar> * 2 ^ j < 2"
  shows "binary64 x = of_int (roundTiesToEven (x * 2 ^ (52 + j))) / 2 ^ (52 + j)"
proof -
  have p: "(2::real) powr of_int (- int j) = 1 / 2 ^ j"
    by (rule two_powr_neg)
  have a: "2 powr of_int (- int j) \<le> \<bar>x\<bar>"
    using assms(1) unfolding p by (simp add: field_simps)
  have eq: "(2::real) powr (of_int (- int j) + 1) = 2 / 2 ^ j"
    unfolding powr_add p by simp
  have "\<bar>x\<bar> < 2 / 2 ^ j"
    using assms(2) by (simp add: field_simps)
  then have b: "\<bar>x\<bar> < 2 powr (of_int (- int j) + 1)"
    by (simp only: eq)
  have "- int j - 52 = - int (52 + j)"
    by simp
  then have s: "(2::real) powr of_int (- int j - 52) = 1 / 2 ^ (52 + j)"
    by (simp only: two_powr_neg)
  show ?thesis
    unfolding binary64_in_binade [OF a b] s by simp
qed

lemma unit_roundoff_range: "0 < unit_roundoff" "unit_roundoff < 1"
  by (simp_all add: unit_roundoff_def)

lemma binary64_nonneg:
  assumes "0 \<le> x"
  shows "(1 - unit_roundoff) * x \<le> binary64 x"
    and "binary64 x \<le> (1 + unit_roundoff) * x"
    and "0 \<le> binary64 x"
proof -
  from binary64_error [of x] assms have e: "\<bar>binary64 x - x\<bar> \<le> unit_roundoff * x"
    by simp
  then show lower: "(1 - unit_roundoff) * x \<le> binary64 x"
    by (simp add: algebra_simps abs_le_iff)
  from e show "binary64 x \<le> (1 + unit_roundoff) * x"
    by (simp add: algebra_simps abs_le_iff)
  have "0 \<le> (1 - unit_roundoff) * x"
    using assms unit_roundoff_range by simp
  with lower show "0 \<le> binary64 x"
    by linarith
qed

lemma term_factors_nonneg: "0 \<le> term_lower" "0 \<le> term_upper"
  by (simp_all add: term_lower_def term_upper_def unit_roundoff_def power_divide zero_le_mult_iff)

section \<open>The day change of a portfolio\<close>

text \<open>
  One term of the day change, \<^verbatim>\<open>shares * (current_price - current_price * 0.99)\<close> with
  its four roundings, lies between \<open>term_lower\<close> and \<open>term_upper\<close> times the exact product
  of shares and price.
\<close>

lemma day_term_bounds:
  assumes s: "0 \<le> s" and p: "0 \<le> p"
  shows "term_lower * (s * p) \<le> times64 s (minus64 p (times64 p (binary64 0.99)))"
    and "times64 s (minus64 p (times64 p (binary64 0.99))) \<le> term_upper * (s * p)"
    and "0 \<le> times64 s (minus64 p (times64 p (binary64 0.99)))"
proof -
  define u where "u = unit_roundoff"
  have u: "0 < u" "u < 1"
    using unit_roundoff_range by (simp_all add: u_def)
  define c where "c = binary64 0.99"
  define pp where "pp = times64 p c"
  define d where "d = minus64 p pp"
  define t where "t = times64 s d"
  have c_bounds: "(1 - u) * 0.99 \<le> c" "c \<le> (1 + u) * 0.99" "0 \<le> c"
    using binary64_nonneg [of "0.99"] by (simp_all add: c_def u_def)
  have pc: "0 \<le> p * c"
    using p c_bounds(3) by simp
  have pp_lower: "(1 - u) * (p * c) \<le> pp" and pp_upper: "pp \<le> (1 + u) * (p * c)"
    using binary64_nonneg [OF pc] by (simp_all add: pp_def times64_def u_def)
  have "(1 + u) * (p * c) \<le> (1 + u) * (p * ((1 + u) * 0.99))"
    using c_bounds(2) p u by (intro mult_left_mono) simp_all
  moreover have "(1 + u) * (p * ((1 + u) * 0.99)) = 0.99 * (1 + u)\<^sup>2 * p"
    by (simp add: power2_eq_square)
  ultimately have pp_le: "pp \<le> 0.99 * (1 + u)\<^sup>2 * p"
    using pp_upper by linarith
  have "(1 - u) * (p * ((1 - u) * 0.99)) \<le> (1 - u) * (p * c)"
    using c_bounds(1) p u by (intro mult_left_mono) simp_all
  moreover have "(1 - u) * (p * ((1 - u) * 0.99)) = 0.99 * (1 - u)\<^sup>2 * p"
    by (simp add: power2_eq_square)
  ultimately have pp_ge: "0.99 * (1 - u)\<^sup>2 * p \<le> pp"
    using pp_lower by linarith
  have k1: "0 \<le> 1 - 0.99 * (1 + u)\<^sup>2"
    by (simp add: u_def unit_roundoff_def power_divide)
  have x_lower: "(1 - 0.99 * (1 + u)\<^sup>2) * p \<le> p - pp"
    using pp_le by (simp add: algebra_simps)
  have x_upper: "p - pp \<le> (1 - 0.99 * (1 - u)\<^sup>2) * p"
    using pp_ge by (simp add: algebra_simps)
  have x_nonneg: "0 \<le> p - pp"
  proof -
    have "0 \<le> (1 - 0.99 * (1 + u)\<^sup>2) * p"
      using k1 p by (rule mult_nonneg_nonneg)
    with x_lower show ?thesis
      by linarith
  qed
  have d_lower: "(1 - u) * (p - pp) \<le> d" and d_upper: "d \<le> (1 + u) * (p - pp)"
    and d_nonneg: "0 \<le> d"
    using binary64_nonneg [OF x_nonneg] by (simp_all add: d_def minus64_def u_def)
  have sd: "0 \<le> s * d"
    using s d_nonneg by simp
  have t_lower: "(1 - u) * (s * d) \<le> t" and t_upper: "t \<le> (1 + u) * (s * d)"
    and t_nonneg: "0 \<le> t"
    using binary64_nonneg [OF sd] by (simp_all add: t_def times64_def u_def)
  have "(1 - u) * ((1 - 0.99 * (1 + u)\<^sup>2) * p) \<le> (1 - u) * (p - pp)"
    using x_lower u by (intro mult_left_mono) simp_all
  with d_lower have "(1 - u) * ((1 - 0.99 * (1 + u)\<^sup>2) * p) \<le> d"
    by linarith
  then have "(1 - u) * (s * ((1 - u) * ((1 - 0.99 * (1 + u)\<^sup>2) * p))) \<le> (1 - u) * (s * d)"
    using s u by (intro mult_left_mono) simp_all
  with t_lower have lower_t: "(1 - u) * (s * ((1 - u) * ((1 - 0.99 * (1 + u)\<^sup>2) * p))) \<le> t"
    by linarith
  have lower_eq: "(1 - u) * (s * ((1 - u) * ((1 - 0.99 * (1 + u)\<^sup>2) * p))) = term_lower * (s * p)"
    by (simp add: term_lower_def u_def power2_eq_square)
  from lower_t have "term_lower * (s * p) \<le> t"
    unfolding lower_eq .
  then show "term_lower * (s * p) \<le> times64 s (minus64 p (times64 p (binary64 0.99)))"
    unfolding t_def d_def pp_def c_def .
  have "(1 + u) * (p - pp) \<le> (1 + u) * ((1 - 0.99 * (1 - u)\<^sup>2) * p)"
    using x_upper u by (intro mult_left_mono) simp_all
  with d_upper have "d \<le> (1 + u) * ((1 - 0.99 * (1 - u)\<^sup>2) * p)"
    by linarith
  then have "(1 + u) * (s * d) \<le> (1 + u) * (s * ((1 + u) * ((1 - 0.99 * (1 - u)\<^sup>2) * p)))"
    using s u by (intro mult_left_mono) simp_all
  with t_upper have upper_t: "t \<le> (1 + u) * (s * ((1 + u) * ((1 - 0.99 * (1 - u)\<^sup>2) * p)))"
    by linarith
  have upper_eq: "(1 + u) * (s * ((1 + u) * ((1 - 0.99 * (1 - u)\<^sup>2) * p))) = term_upper * (s * p)"
    by (simp add: term_upper_def u_def power2_eq_square)
  from upper_t have "t \<le> term_upper * (s * p)"
    unfolding upper_eq .
  then show "times64 s (minus64 p (times64 p (binary64 0.99))) \<le> term_upper * (s * p)"
    unfolding t_def d_def pp_def c_def .
  from t_nonneg show "0 \<le> times64 s (minus64 p (times64 p (binary64 0.99)))"
    unfolding t_def d_def pp_def c_def .
qed

lemma accumulate_lower:
  assumes "0 \<le> c" and "0 \<le> W" and "0 \<le> w"
    and "c * (1 - unit_roundoff) ^ k * W \<le> x" and "c * w \<le> y"
  shows "c * (1 - unit_roundoff) ^ Suc k * (W + w) \<le> plus64 x y"
proof -
  define a where "a = 1 - unit_roundoff"
  have a: "0 \<le> a" "a \<le> 1"
    using unit_roundoff_range by (simp_all add: a_def)
  have ak: "0 \<le> a ^ k" "a ^ k \<le> 1"
    using a by (simp_all add: power_le_one)
  have "0 \<le> c * a ^ k * W"
    using assms(1,2) ak(1) by simp
  with assms(4) have x: "0 \<le> x"
    by (simp add: a_def)
  have "0 \<le> c * w"
    using assms(1,3) by simp
  with assms(5) have y: "0 \<le> y"
    by simp
  have "c * a ^ k * w \<le> c * w"
    using mult_right_mono [OF ak(2), of "c * w"] assms(1,3) by (simp add: algebra_simps)
  with assms(4,5) have "c * a ^ k * (W + w) \<le> x + y"
    by (simp add: a_def algebra_simps)
  then have "a * (c * a ^ k * (W + w)) \<le> a * (x + y)"
    using a(1) by (rule mult_left_mono)
  moreover have "a * (x + y) \<le> plus64 x y"
    using binary64_nonneg(1) [of "x + y"] x y by (simp add: plus64_def a_def)
  ultimately show ?thesis
    by (simp add: a_def algebra_simps)
qed

lemma accumulate_upper:
  assumes "0 \<le> c" and "0 \<le> W" and "0 \<le> w" and "0 \<le> x" and "0 \<le> y"
    and "x \<le> c * (1 + unit_roundoff) ^ k * W" and "y \<le> c * w"
  shows "plus64 x y \<le> c * (1 + unit_roundoff) ^ Suc k * (W + w)"
    and "0 \<le> plus64 x y"
proof -
  define b where "b = 1 + unit_roundoff"
  have b: "1 \<le> b"
    using unit_roundoff_range by (simp add: b_def)
  have bk: "1 \<le> b ^ k"
    using b by (rule one_le_power)
  have "c * w \<le> c * b ^ k * w"
    using mult_right_mono [OF bk, of "c * w"] assms(1,3) by (simp add: algebra_simps)
  with assms(6,7) have "x + y \<le> c * b ^ k * (W + w)"
    by (simp add: b_def algebra_simps)
  then have "b * (x + y) \<le> b * (c * b ^ k * (W + w))"
    using b by (intro mult_left_mono) simp_all
  moreover have "plus64 x y \<le> b * (x + y)"
    using binary64_nonneg(2) [of "x + y"] assms(4,5) by (simp add: plus64_def b_def)
  ultimately show "plus64 x y \<le> c * (1 + unit_roundoff) ^ Suc k * (W + w)"
    by (simp add: b_def algebra_simps)
  show "0 \<le> plus64 x y"
    using binary64_nonneg(3) [of "x + y"] assms(4,5) by (simp add: plus64_def)
qed

lemma holding_in_range_nonneg:
  "holding_in_range i \<Longrightarrow> 0 \<le> shares i \<and> 0 \<le> current_price i"
  by (auto simp: holding_in_range_def intro: order_trans [of 0 "1 / 10 ^ 6"] order_trans [of 0 "1 / 100"])

lemma holdings_value_snoc:
  "holdings_value (xs @ [x]) = holdings_value xs + shares x * current_price x"
  by (simp add: holdings_value_def)

lemma holdings_value_nonneg:
  "\<forall>i \<in> set xs. 0 \<le> shares i \<and> 0 \<le> current_price i \<Longrightarrow> 0 \<le> holdings_value xs"
  unfolding holdings_value_def by (intro sum_list_nonneg) auto

lemma performance_step_fields:
  "fst (performance_step acc x) = plus64 (fst acc) (times64 (shares x) (current_price x))"
  "snd (snd (performance_step acc x)) =
     plus64 (snd (snd acc))
       (times64 (shares x) (minus64 (current_price x) (times64 (current_price x) (binary64 0.99))))"
  by (simp_all add: performance_step_def Let_def)

lemma performance_fold_bounds:
  assumes "\<forall>i \<in> set xs. 0 \<le> shares i \<and> 0 \<le> current_price i"
  shows "(1 - unit_roundoff) * (1 - unit_roundoff) ^ length xs * holdings_value xs
           \<le> fst (foldl performance_step (0, 0, 0) xs)
         \<and> fst (foldl performance_step (0, 0, 0) xs)
           \<le> (1 + unit_roundoff) * (1 + unit_roundoff) ^ length xs * holdings_value xs
         \<and> 0 \<le> fst (foldl performance_step (0, 0, 0) xs)
         \<and> term_lower * (1 - unit_roundoff) ^ length xs * holdings_value xs
           \<le> snd (snd (foldl performance_step (0, 0, 0) xs))
         \<and> snd (snd (foldl performance_step (0, 0, 0) xs))
           \<le> term_upper * (1 + unit_roundoff) ^ length xs * holdings_value xs
         \<and> 0 \<le> snd (snd (foldl performance_step (0, 0, 0) xs))"
  using assms
proof (induction xs rule: rev_induct)
  case Nil
  show ?case
    by (simp add: holdings_value_def)
next
  case (snoc x xs)
  define S where "S = foldl performance_step (0, 0, 0) xs"
  define W where "W = holdings_value xs"
  define s where "s = shares x"
  define p where "p = current_price x"
  define n where "n = length xs"
  from snoc.prems have sp: "0 \<le> s" "0 \<le> p"
    by (simp_all add: s_def p_def)
  from snoc.prems have rest: "\<forall>i \<in> set xs. 0 \<le> shares i \<and> 0 \<le> current_price i"
    by simp
  have W: "0 \<le> W"
    unfolding W_def using rest by (rule holdings_value_nonneg)
  have w: "0 \<le> s * p"
    using sp by simp
  from snoc.IH [OF rest] have
    tv_lo: "(1 - unit_roundoff) * (1 - unit_roundoff) ^ n * W \<le> fst S" and
    tv_hi: "fst S \<le> (1 + unit_roundoff) * (1 + unit_roundoff) ^ n * W" and
    tv_nn: "0 \<le> fst S" and
    dc_lo: "term_lower * (1 - unit_roundoff) ^ n * W \<le> snd (snd S)" and
    dc_hi: "snd (snd S) \<le> term_upper * (1 + unit_roundoff) ^ n * W" and
    dc_nn: "0 \<le> snd (snd S)"
    by (simp_all add: S_def W_def n_def)
  have u: "0 \<le> 1 - unit_roundoff" "0 \<le> 1 + unit_roundoff"
    using unit_roundoff_range by simp_all
  have v: "(1 - unit_roundoff) * (s * p) \<le> times64 s p" "times64 s p \<le> (1 + unit_roundoff) * (s * p)"
    "0 \<le> times64 s p"
    using binary64_nonneg [OF w] by (simp_all add: times64_def)
  note t = day_term_bounds [OF sp]
  have step: "foldl performance_step (0, 0, 0) (xs @ [x]) = performance_step S x"
    by (simp add: S_def)
  have len: "length (xs @ [x]) = Suc n"
    by (simp add: n_def)
  have val: "holdings_value (xs @ [x]) = W + s * p"
    by (simp add: holdings_value_snoc W_def s_def p_def)
  have a: "(1 - unit_roundoff) * (1 - unit_roundoff) ^ Suc n * (W + s * p)
      \<le> plus64 (fst S) (times64 s p)"
    using u(1) W w tv_lo v(1) by (rule accumulate_lower)
  have b: "plus64 (fst S) (times64 s p)
      \<le> (1 + unit_roundoff) * (1 + unit_roundoff) ^ Suc n * (W + s * p)"
    and c: "0 \<le> plus64 (fst S) (times64 s p)"
    using accumulate_upper [OF u(2) W w tv_nn v(3) tv_hi v(2)] by simp_all
  have d: "term_lower * (1 - unit_roundoff) ^ Suc n * (W + s * p)
      \<le> plus64 (snd (snd S)) (times64 s (minus64 p (times64 p (binary64 0.99))))"
    using term_factors_nonneg(1) W w dc_lo t(1) by (rule accumulate_lower)
  have e: "plus64 (snd (snd S)) (times64 s (minus64 p (times64 p (binary64 0.99))))
      \<le> term_upper * (1 + unit_roundoff) ^ Suc n * (W + s * p)"
    and f: "0 \<le> plus64 (snd (snd S)) (times64 s (minus64 p (times64 p (binary64 0.99))))"
    using accumulate_upper [OF term_factors_nonneg(2) W w dc_nn t(3) dc_hi t(2)] by simp_all
  from a b c d e f show ?case
    unfolding step len val performance_step_fields s_def [symmetric] p_def [symmetric]
    by blast
qed

lemma power_lower_slack:
  assumes "n \<le> 1000001"
  shows "1 - growth_slack \<le> (1 - unit_roundoff) ^ n"
proof -
  have "1 + real n * (- unit_roundoff) \<le> (1 + (- unit_roundoff)) ^ n"
    using unit_roundoff_range by (intro Bernoulli_inequality) simp
  moreover have "real n * unit_roundoff \<le> growth_slack"
    using assms unit_roundoff_range by (simp add: growth_slack_def)
  ultimately show ?thesis
    by simp
qed

lemma power_upper_slack:
  assumes "n \<le> 1000001"
  shows "(1 - growth_slack) * (1 + unit_roundoff) ^ n \<le> 1"
proof -
  have nonneg: "0 \<le> (1 + unit_roundoff) ^ n"
    using unit_roundoff_range by simp
  have "(1 - growth_slack) * (1 + unit_roundoff) ^ n \<le> (1 - unit_roundoff) ^ n * (1 + unit_roundoff) ^ n"
    using power_lower_slack [OF assms] nonneg by (rule mult_right_mono)
  also have "\<dots> = ((1 - unit_roundoff) * (1 + unit_roundoff)) ^ n"
    by (simp add: power_mult_distrib)
  also have "\<dots> \<le> 1"
    by (intro power_le_one) (simp_all add: unit_roundoff_def)
  finally show ?thesis .
qed

lemma slack_numbers:
  "0 < 1 - growth_slack"
  "1 / 100 - 1 / 10 ^ 11 \<le> term_lower * (1 - growth_slack)\<^sup>2"
  "term_upper \<le> (1 / 100 + 1 / 10 ^ 11) * (1 - growth_slack)\<^sup>2"
  "1 - 1 / 10 ^ 9 \<le> 100 * (1 - unit_roundoff)\<^sup>2 * (term_lower * (1 - growth_slack)\<^sup>2)"
  "100 * (1 + unit_roundoff)\<^sup>2 * term_upper \<le> (1 + 1 / 10 ^ 9) * (1 - growth_slack)\<^sup>2"
  by (simp_all add: growth_slack_def term_lower_def term_upper_def unit_roundoff_def power_divide)

lemma day_change_bounds:
  assumes len: "length xs \<le> 1000000"
    and range: "\<forall>i \<in> set xs. holding_in_range i"
  defines "tv \<equiv> fst (foldl performance_step (0, 0, 0) xs)"
    and "dc \<equiv> snd (snd (foldl performance_step (0, 0, 0) xs))"
  shows "term_lower * (1 - growth_slack)\<^sup>2 * tv \<le> dc"
    and "(1 - growth_slack)\<^sup>2 * dc \<le> term_upper * tv"
    and "0 \<le> tv" and "0 \<le> dc"
proof -
  define n where "n = length xs"
  define W where "W = holdings_value xs"
  define g where "g = 1 - growth_slack"
  have nonneg: "\<forall>i \<in> set xs. 0 \<le> shares i \<and> 0 \<le> current_price i"
    using range holding_in_range_nonneg by blast
  have W: "0 \<le> W"
    unfolding W_def using nonneg by (rule holdings_value_nonneg)
  have g: "0 < g"
    using slack_numbers(1) by (simp add: g_def)
  from performance_fold_bounds [OF nonneg] have
    tv_lo: "(1 - unit_roundoff) ^ Suc n * W \<le> tv" and
    tv_hi: "tv \<le> (1 + unit_roundoff) ^ Suc n * W" and
    tv_nn: "0 \<le> tv" and
    dc_lo: "term_lower * (1 - unit_roundoff) ^ n * W \<le> dc" and
    dc_hi: "dc \<le> term_upper * (1 + unit_roundoff) ^ n * W" and
    dc_nn: "0 \<le> dc"
    by (simp_all add: tv_def dc_def n_def W_def mult.assoc)
  have n: "n \<le> 1000001" "Suc n \<le> 1000001"
    using len by (simp_all add: n_def)
  have p_lo: "g \<le> (1 - unit_roundoff) ^ n" "g \<le> (1 - unit_roundoff) ^ Suc n"
    using power_lower_slack [OF n(1)] power_lower_slack [OF n(2)] by (simp_all add: g_def)
  have p_hi: "g * (1 + unit_roundoff) ^ n \<le> 1" "g * (1 + unit_roundoff) ^ Suc n \<le> 1"
    using power_upper_slack [OF n(1)] power_upper_slack [OF n(2)] by (simp_all add: g_def)
  have "g * tv \<le> g * ((1 + unit_roundoff) ^ Suc n * W)"
    using tv_hi g by (intro mult_left_mono) simp_all
  also have "\<dots> = (g * (1 + unit_roundoff) ^ Suc n) * W"
    by (simp only: mult.assoc)
  also have "\<dots> \<le> 1 * W"
    using p_hi(2) W by (rule mult_right_mono)
  finally have gtv: "g * tv \<le> W"
    by simp
  have "g * W \<le> (1 - unit_roundoff) ^ Suc n * W"
    using p_lo(2) W by (rule mult_right_mono)
  with tv_lo have gW: "g * W \<le> tv"
    by linarith
  have "term_lower * g\<^sup>2 * tv = term_lower * (g * (g * tv))"
    by (simp add: power2_eq_square)
  also have "\<dots> \<le> term_lower * (g * W)"
    using gtv g term_factors_nonneg(1) by (intro mult_left_mono) simp_all
  also have "\<dots> \<le> term_lower * ((1 - unit_roundoff) ^ n * W)"
    using p_lo(1) W term_factors_nonneg(1) by (intro mult_left_mono mult_right_mono) simp_all
  also have "\<dots> \<le> dc"
    using dc_lo by (simp add: mult.assoc)
  finally show "term_lower * (1 - growth_slack)\<^sup>2 * tv \<le> dc"
    by (simp add: g_def)
  have "g\<^sup>2 * dc \<le> g\<^sup>2 * (term_upper * (1 + unit_roundoff) ^ n * W)"
    using dc_hi by (intro mult_left_mono) simp_all
  also have "\<dots> = term_upper * ((g * (1 + unit_roundoff) ^ n) * (g * W))"
    by (simp add: power2_eq_square)
  also have "\<dots> \<le> term_upper * (1 * (g * W))"
    using p_hi(1) g W term_factors_nonneg(2) by (intro mult_left_mono mult_right_mono) simp_all
  also have "\<dots> \<le> term_upper * tv"
    using gW term_factors_nonneg(2) by (simp add: mult_left_mono)
  finally show "(1 - growth_slack)\<^sup>2 * dc \<le> term_upper * tv"
    by (simp add: g_def)
  show "0 \<le> tv" "0 \<le> dc"
    by (rule tv_nn, rule dc_nn)
qed

lemma calculatePortfolioPerformance_fields:
  "totalValue (calculatePortfolioPerformance xs) = fst (foldl performance_step (0, 0, 0) xs)"
  "dayChange (calculatePortfolioPerformance xs) = snd (snd (foldl performance_step (0, 0, 0) xs))"
  "dayChangePercentage (calculatePortfolioPerformance xs) =
     (if 0 < fst (foldl performance_step (0, 0, 0) xs)
      then times64 (divide64 (snd (snd (foldl performance_step (0, 0, 0) xs)))
             (fst (foldl performance_step (0, 0, 0) xs))) 100
      else 0)"
  by (simp_all add: calculatePortfolioPerformance_def Let_def)

lemma day_change_near:
  assumes len: "length xs \<le> 1000000"
    and range: "\<forall>i \<in> set xs. holding_in_range i"
  shows "\<bar>dayChange (calculatePortfolioPerformance xs) - totalValue (calculatePortfolioPerformance xs) / 100\<bar>
           \<le> totalValue (calculatePortfolioPerformance xs) / 10 ^ 11"
    and "0 < totalValue (calculatePortfolioPerformance xs) \<Longrightarrow>
           \<bar>dayChangePercentage (calculatePortfolioPerformance xs) - 1\<bar> \<le> 1 / 10 ^ 9"
proof -
  define tv where "tv = fst (foldl performance_step (0, 0, 0) xs)"
  define dc where "dc = snd (snd (foldl performance_step (0, 0, 0) xs))"
  define g2 where "g2 = (1 - growth_slack)\<^sup>2"
  note b = day_change_bounds [OF len range, folded tv_def dc_def g2_def]
  have g2: "0 < g2"
    using slack_numbers(1) by (simp add: g2_def)
  have lo: "(1 / 100 - 1 / 10 ^ 11) * tv \<le> dc"
  proof -
    have "(1 / 100 - 1 / 10 ^ 11) * tv \<le> term_lower * g2 * tv"
      using slack_numbers(2) b(3) unfolding g2_def [symmetric] by (rule mult_right_mono)
    with b(1) show ?thesis
      by linarith
  qed
  have hi: "dc \<le> (1 / 100 + 1 / 10 ^ 11) * tv"
  proof -
    have "term_upper * tv \<le> (1 / 100 + 1 / 10 ^ 11) * g2 * tv"
      using slack_numbers(3) b(3) unfolding g2_def [symmetric] by (rule mult_right_mono)
    with b(2) have "g2 * dc \<le> (1 / 100 + 1 / 10 ^ 11) * g2 * tv"
      by linarith
    also have "\<dots> = g2 * ((1 / 100 + 1 / 10 ^ 11) * tv)"
      by (simp only: mult.assoc mult.left_commute)
    finally show ?thesis
      using g2 by (simp only: mult_le_cancel_left_pos)
  qed
  from lo hi show "\<bar>dayChange (calculatePortfolioPerformance xs)
      - totalValue (calculatePortfolioPerformance xs) / 100\<bar>
           \<le> totalValue (calculatePortfolioPerformance xs) / 10 ^ 11"
    unfolding calculatePortfolioPerformance_fields tv_def [symmetric] dc_def [symmetric]
    by (simp only: abs_le_iff) (simp add: algebra_simps)
  assume "0 < totalValue (calculatePortfolioPerformance xs)"
  then have tv: "0 < tv"
    by (simp add: calculatePortfolioPerformance_fields tv_def)
  define q where "q = dc / tv"
  define r where "r = times64 (divide64 dc tv) 100"
  have q_nn: "0 \<le> q"
    using tv b(4) by (simp add: q_def)
  have q_lo: "term_lower * g2 \<le> q"
    using b(1) tv by (simp add: q_def pos_le_divide_eq)
  have q_hi: "g2 * q \<le> term_upper"
    using b(2) tv by (simp add: q_def pos_divide_le_eq)
  have fq: "(1 - unit_roundoff) * q \<le> divide64 dc tv" "divide64 dc tv \<le> (1 + unit_roundoff) * q"
    "0 \<le> divide64 dc tv"
    using binary64_nonneg [OF q_nn] by (simp_all add: divide64_def q_def)
  have z_nn: "0 \<le> divide64 dc tv * 100"
    using fq(3) by simp
  have fr: "(1 - unit_roundoff) * (divide64 dc tv * 100) \<le> r"
    "r \<le> (1 + unit_roundoff) * (divide64 dc tv * 100)"
    using binary64_nonneg [OF z_nn] by (simp_all add: r_def times64_def)
  have u: "0 \<le> 1 - unit_roundoff" "0 \<le> 1 + unit_roundoff"
    using unit_roundoff_range by simp_all
  have r_lo: "1 - 1 / 10 ^ 9 \<le> r"
  proof -
    have "100 * (1 - unit_roundoff)\<^sup>2 * (term_lower * g2) \<le> 100 * (1 - unit_roundoff)\<^sup>2 * q"
      using q_lo by (intro mult_left_mono) simp_all
    also have "\<dots> = (1 - unit_roundoff) * (((1 - unit_roundoff) * q) * 100)"
      by (simp add: power2_eq_square)
    also have "\<dots> \<le> (1 - unit_roundoff) * (divide64 dc tv * 100)"
      using fq(1) u(1) by (intro mult_left_mono mult_right_mono) simp_all
    also have "\<dots> \<le> r"
      by (rule fr(1))
    finally show ?thesis
      using slack_numbers(4) unfolding g2_def [symmetric] by linarith
  qed
  have r_hi: "r \<le> 1 + 1 / 10 ^ 9"
  proof -
    have "(1 + unit_roundoff) * (divide64 dc tv * 100)
        \<le> (1 + unit_roundoff) * (((1 + unit_roundoff) * q) * 100)"
      using fq(2) u(2) by (intro mult_left_mono mult_right_mono) simp_all
    with fr(2) have "r \<le> (1 + unit_roundoff) * (((1 + unit_roundoff) * q) * 100)"
      by linarith
    also have "\<dots> = 100 * (1 + unit_roundoff)\<^sup>2 * q"
      by (simp add: power2_eq_square)
    finally have "g2 * r \<le> 100 * (1 + unit_roundoff)\<^sup>2 * (g2 * q)"
      using g2 by (simp add: mult.left_commute)
    also have "\<dots> \<le> 100 * (1 + unit_roundoff)\<^sup>2 * term_upper"
      using q_hi by (intro mult_left_mono) simp_all
    also have "\<dots> \<le> (1 + 1 / 10 ^ 9) * g2"
      using slack_numbers(5) by (simp add: g2_def)
    finally have "g2 * r \<le> g2 * (1 + 1 / 10 ^ 9)"
      by (simp only: mult.commute)
    then show ?thesis
      using g2 by (simp only: mult_le_cancel_left_pos)
  qed
  have pct: "dayChangePercentage (calculatePortfolioPerformance xs) = r"
    using tv by (simp add: calculatePortfolioPerformance_fields tv_def dc_def r_def)
  from r_lo r_hi have "\<bar>r - 1\<bar> \<le> 1 / 10 ^ 9"
    by linarith
  then show "\<bar>dayChangePercentage (calculatePortfolioPerformance xs) - 1\<bar> \<le> 1 / 10 ^ 9"
    by (simp only: pct)
qed

section \<open>The sample holdings evaluated\<close>

lemma binary64_zero: "binary64 0 = 0"
  by (simp add: binary64_def)

lemma sample_steps:
  "binary64 0.99 = 4458563631096791 / 2 ^ 52"
  "times64 2 15 = 30"
  "times64 2 10 = 20"
  "times64 15 (4458563631096791 / 2 ^ 52) = 8359806808306483 / 2 ^ 49"
  "minus64 15 (8359806808306483 / 2 ^ 49) = 84442493013197 / 2 ^ 49"
  "times64 2 (84442493013197 / 2 ^ 49) = 84442493013197 / 2 ^ 48"
  "plus64 0 30 = 30"
  "plus64 0 20 = 20"
  "plus64 0 (84442493013197 / 2 ^ 48) = 84442493013197 / 2 ^ 48"
  "divide64 (84442493013197 / 2 ^ 48) 30 = 5764607523034249 / 2 ^ 59"
  "times64 (5764607523034249 / 2 ^ 59) 100 = 4503599627370507 / 2 ^ 52"
  "binary64 0.01 = 5764607523034235 / 2 ^ 59"
  "times64 (5764607523034235 / 2 ^ 59) 30 = 5404319552844595 / 2 ^ 54"
  unfolding times64_def plus64_def minus64_def divide64_def
  apply (subst binary64_lower_binade [where j = 1]; simp add: roundTiesToEven_def Let_def)
  apply (subst binary64_upper_binade [where k = 4]; simp add: roundTiesToEven_def Let_def)
  apply (subst binary64_upper_binade [where k = 4]; simp add: roundTiesToEven_def Let_def)
  apply (subst binary64_upper_binade [where k = 3]; simp add: roundTiesToEven_def Let_def)
  apply (subst binary64_lower_binade [where j = 3]; simp add: roundTiesToEven_def Let_def)
  apply (subst binary64_lower_binade [where j = 2]; simp add: roundTiesToEven_def Let_def)
  apply (subst binary64_upper_binade [where k = 4]; simp add: roundTiesToEven_def Let_def)
  apply (subst binary64_upper_binade [where k = 4]; simp add: roundTiesToEven_def Let_def)
  apply (subst binary64_lower_binade [where j = 2]; simp add: roundTiesToEven_def Let_def)
  apply (subst binary64_lower_binade [where j = 7]; simp add: roundTiesToEven_def Let_def)
  apply (subst binary64_upper_binade [where k = 0]; simp add: roundTiesToEven_def Let_def)
  apply (subst binary64_lower_binade [where j = 7]; simp add: roundTiesToEven_def Let_def)
  apply (subst binary64_lower_binade [where j = 2]; simp add: roundTiesToEven_def Let_def)
  done

lemma sample_holdings_totals:
  "foldl performance_step (0, 0, 0) sample_holdings = (30, 20, 84442493013197 / 2 ^ 48)"
  by (simp only: sample_holdings_def foldl_Cons foldl_Nil performance_step_def Let_def fst_conv snd_conv
      Investment.select_convs sample_steps)

lemma sample_day_change:
  "totalValue (calculatePortfolioPerformance sample_holdings) = 30"
  "dayChange (calculatePortfolioPerformance sample_holdings) = 84442493013197 / 2 ^ 48"
  "dayChangePercentage (calculatePortfolioPerformance sample_holdings) = 4503599627370507 / 2 ^ 52"
proof -
  have pos: "(0::real) < 30"
    by simp
  show "totalValue (calculatePortfolioPerformance sample_holdings) = 30"
    "dayChange (calculatePortfolioPerformance sample_holdings) = 84442493013197 / 2 ^ 48"
    by (simp_all only: calculatePortfolioPerformance_def Let_def sample_holdings_totals fst_conv snd_conv
        PortfolioPerformance.select_convs)
  show "dayChangePercentage (calculatePortfolioPerformance sample_holdings) = 4503599627370507 / 2 ^ 52"
    by (simp only: calculatePortfolioPerformance_def Let_def sample_holdings_totals fst_conv snd_conv
        PortfolioPerformance.select_convs pos if_True sample_steps)
qed

section \<open>The daily change is one per cent only up to rounding\<close>

text \<open>
  Claim C9 says that the day change is exactly 0.01 times the total value and the day
  change percentage exactly 1 for a positive total value. For one holding of 2 shares at
  a current price of 15 the function returns the total value 30, the day change
  0.3000000000000007 and the day change percentage 1.0000000000000024: the day change is
  neither the real number 0.3 nor the double that \<^verbatim>\<open>0.01 * totalValue\<close> evaluates to, and
  the percentage is not 1.
\<close>

theorem day_change_not_exact_counterexample:
  "totalValue (calculatePortfolioPerformance sample_holdings) = 30
   \<and> dayChange (calculatePortfolioPerformance sample_holdings) = 84442493013197 / 2 ^ 48
   \<and> dayChange (calculatePortfolioPerformance sample_holdings)
       \<noteq> 0.01 * totalValue (calculatePortfolioPerformance sample_holdings)
   \<and> dayChange (calculatePortfolioPerformance sample_holdings)
       \<noteq> times64 (binary64 0.01) (totalValue (calculatePortfolioPerformance sample_holdings))
   \<and> dayChangePercentage (calculatePortfolioPerformance sample_holdings) = 4503599627370507 / 2 ^ 52
   \<and> dayChangePercentage (calculatePortfolioPerformance sample_holdings) \<noteq> 1"
proof -
  have product: "times64 (binary64 0.01) 30 = 5404319552844595 / 2 ^ 54"
    by (simp only: sample_steps)
  have a: "(84442493013197 / 2 ^ 48 :: real) \<noteq> 0.01 * 30"
    by simp
  have b: "(84442493013197 / 2 ^ 48 :: real) \<noteq> 5404319552844595 / 2 ^ 54"
    by simp
  have c: "(4503599627370507 / 2 ^ 52 :: real) \<noteq> 1"
    by simp
  from a b c show ?thesis
    by (simp only: sample_day_change product) simp
qed

text \<open>
  Claim C9, as amended. The day change percentage is exactly 0 when the total value is 0.
  For every list of at most a million holdings whose shares and prices are zero or in the
  range of their stored columns, the day change differs from one hundredth of the total
  value by at most \<open>10^-11\<close> times the total value, and the day change percentage differs
  from 1 by at most \<open>10^-9\<close> when the total value is positive: the reported daily change is
  one per cent up to the rounding of the doubles, whatever the holdings are.
\<close>

theorem day_change_near_one_percent:
  "(totalValue (calculatePortfolioPerformance investments) = 0
      \<longrightarrow> dayChangePercentage (calculatePortfolioPerformance investments) = 0)
   \<and> (length investments \<le> 1000000 \<and> (\<forall>i \<in> set investments. holding_in_range i)
      \<longrightarrow> \<bar>dayChange (calculatePortfolioPerformance investments)
             - totalValue (calculatePortfolioPerformance investments) / 100\<bar>
            \<le> totalValue (calculatePortfolioPerformance investments) / 10 ^ 11
          \<and> (0 < totalValue (calculatePortfolioPerformance investments)
               \<longrightarrow> \<bar>dayChangePercentage (calculatePortfolioPerformance investments) - 1\<bar>
                     \<le> 1 / 10 ^ 9))"
proof (intro conjI impI)
  assume "totalValue (calculatePortfolioPerformance investments) = 0"
  then show "dayChangePercentage (calculatePortfolioPerformance investments) = 0"
    by (simp add: calculatePortfolioPerformance_fields)
next
  assume h: "length investments \<le> 1000000 \<and> (\<forall>i \<in> set investments. holding_in_range i)"
  then show "\<bar>dayChange (calculatePortfolioPerformance investments)
             - totalValue (calculatePortfolioPerformance investments) / 100\<bar>
            \<le> totalValue (calculatePortfolioPerformance investments) / 10 ^ 11"
    by (intro day_change_near(1)) simp_all
  assume "0 < totalValue (calculatePortfolioPerformance investments)"
  with h show "\<bar>dayChangePercentage (calculatePortfolioPerformance investments) - 1\<bar> \<le> 1 / 10 ^ 9"
    by (intro day_change_near(2)) simp_all
qed

theorem day_change_near_one_percent_witness:
  "0 < totalValue (calculatePortfolioPerformance sample_holdings)
   \<and> \<bar>dayChange (calculatePortfolioPerformance sample_holdings)
        - totalValue (calculatePortfolioPerformance sample_holdings) / 100\<bar>
       \<le> totalValue (calculatePortfolioPerformance sample_holdings) / 10 ^ 11
   \<and> \<bar>dayChangePercentage (calculatePortfolioPerformance sample_holdings) - 1\<bar> \<le> 1 / 10 ^ 9
   \<and> totalValue (calculatePortfolioPerformance []) = 0
   \<and> dayChangePercentage (calculatePortfolioPerformance []) = 0"
proof -
  have len: "length sample_holdings \<le> 1000000"
    by (simp add: sample_holdings_def)
  have range: "\<forall>i \<in> set sample_holdings. holding_in_range i"
    by (simp add: sample_holdings_def holding_in_range_def)
  have pos: "0 < totalValue (calculatePortfolioPerformance sample_holdings)"
    by (simp add: sample_day_change)
  have empty: "totalValue (calculatePortfolioPerformance []) = 0"
    by (simp add: calculatePortfolioPerformance_fields)
  from day_change_near_one_percent [of sample_holdings] len range pos
  have a: "\<bar>dayChange (calculatePortfolioPerformance sample_holdings)
        - totalValue (calculatePortfolioPerformance sample_holdings) / 100\<bar>
       \<le> totalValue (calculatePortfolioPerformance sample_holdings) / 10 ^ 11"
    "\<bar>dayChangePercentage (calculatePortfolioPerformance sample_holdings) - 1\<bar> \<le> 1 / 10 ^ 9"
    by blast+
  from day_change_near_one_percent [of "[]"] empty
  have b: "dayChangePercentage (calculatePortfolioPerformance []) = 0"
    by blast
  from pos a empty b show ?thesis
    by blast
qed

end
